theory Spec2Isabelle
  imports Complex_Main "HOL-Library.Multiset"
begin

section \<open>Numbers\<close>

text \<open>
  A JavaScript number that reaches the charts is either a finite value or \<open>NaN\<close>
  (\<open>parseFloat\<close> of a non-numeric field). Finite values are carried as rationals:
  every finite binary64 value is one, and comparison of finite values is the order of
  the rationals. The arithmetic of the scales and of the jitter update is exact, the
  binary64 rounding of each operation is written out only where a string is produced
  from the result (tick formatting). Infinities and the negative zero are outside the model.
\<close>

datatype jsnum = Num rat | NaN

text \<open>\<open>a < b\<close> and \<open>a >= b\<close> of JavaScript: false as soon as one side is \<open>NaN\<close>.\<close>

fun js_lt :: "jsnum \<Rightarrow> jsnum \<Rightarrow> bool" where
  "js_lt (Num a) (Num b) = (a < b)"
| "js_lt _ _ = False"

fun js_ge :: "jsnum \<Rightarrow> jsnum \<Rightarrow> bool" where
  "js_ge (Num a) (Num b) = (a \<ge> b)"
| "js_ge _ _ = False"

text \<open>The finite values of a list of numbers, in order.\<close>

fun finite_values :: "jsnum list \<Rightarrow> rat list" where
  "finite_values [] = []"
| "finite_values (Num a # vs) = a # finite_values vs"
| "finite_values (NaN # vs) = finite_values vs"

section \<open>The d3 helpers the charts call\<close>

text \<open>
  \<open>d3.max(values, accessor)\<close>: one pass, the running maximum starts undefined
  (\<open>None\<close>); a value replaces it when \<open>max < value\<close>, or when the maximum is still
  undefined and \<open>value >= value\<close> (the value is not \<open>NaN\<close>). The accessor is applied
  by the caller (\<open>map\<close>).
\<close>

fun d3_max_step :: "jsnum option \<Rightarrow> jsnum \<Rightarrow> jsnum option" where
  "d3_max_step None v = (if js_ge v v then Some v else None)"
| "d3_max_step (Some m) v = (if js_lt m v then Some v else Some m)"

definition d3_max :: "jsnum list \<Rightarrow> jsnum option" where
  "d3_max vs = foldl d3_max_step None vs"

text \<open>
  \<open>d3.extent(values, accessor)\<close>: one pass keeping the minimum and the maximum, both
  undefined until the first value with \<open>value >= value\<close>; the result is the pair
  \<open>[min, max]\<close>, \<open>[undefined, undefined]\<close> when no value qualified.
\<close>

fun d3_extent_step :: "(jsnum \<times> jsnum) option \<Rightarrow> jsnum \<Rightarrow> (jsnum \<times> jsnum) option" where
  "d3_extent_step None v = (if js_ge v v then Some (v, v) else None)"
| "d3_extent_step (Some (lo, hi)) v =
     Some (if js_lt v lo then v else lo, if js_lt hi v then v else hi)"

definition d3_extent :: "jsnum list \<Rightarrow> (jsnum \<times> jsnum) option" where
  "d3_extent vs = foldl d3_extent_step None vs"

text \<open>
  Setting the domain of a continuous scale coerces each bound to a number:
  \<open>undefined\<close> becomes \<open>NaN\<close>.
\<close>

fun number :: "jsnum option \<Rightarrow> jsnum" where
  "number None = NaN"
| "number (Some v) = v"

record scaleLinear =
  domain_of :: "jsnum \<times> jsnum"
  range_of :: "rat \<times> rat"

text \<open>
  Calling a linear scale (d3-scale, \<open>continuous.js\<close>): an input that is \<open>NaN\<close> gives
  the unknown value \<open>undefined\<close> (\<open>None\<close>). Otherwise the input is normalised over the
  domain, from its smaller end, and interpolated over the range; a domain of width zero
  normalises every input to \<open>0.5\<close>, and a \<open>NaN\<close> bound makes the output \<open>NaN\<close>.
\<close>

definition normalize :: "rat \<Rightarrow> rat \<Rightarrow> rat \<Rightarrow> rat" where
  "normalize a b v = (if b - a = 0 then 1 / 2 else (v - a) / (b - a))"

definition interpolateNumber :: "rat \<Rightarrow> rat \<Rightarrow> rat \<Rightarrow> rat" where
  "interpolateNumber a b t = a * (1 - t) + b * t"

definition bimap :: "rat \<Rightarrow> rat \<Rightarrow> rat \<Rightarrow> rat \<Rightarrow> rat \<Rightarrow> rat" where
  "bimap d0 d1 r0 r1 v =
     (if d1 < d0 then interpolateNumber r1 r0 (normalize d1 d0 v)
      else interpolateNumber r0 r1 (normalize d0 d1 v))"

fun scale_call :: "scaleLinear \<Rightarrow> jsnum \<Rightarrow> jsnum option" where
  "scale_call s NaN = None"
| "scale_call s (Num v) =
     (case domain_of s of
        (Num d0, Num d1) \<Rightarrow> Some (Num (bimap d0 d1 (fst (range_of s)) (snd (range_of s)) v))
      | _ \<Rightarrow> Some NaN)"

text \<open>The default configuration of the three charts.\<close>

record margins =
  top :: rat
  right :: rat
  bottom :: rat
  left :: rat

record config =
  width :: rat
  height :: rat
  margin :: margins

definition configS :: config where
  "configS = \<lparr>width = 800, height = 400,
     margin = \<lparr>top = 20, right = 30, bottom = 40, left = 150\<rparr>\<rparr>"

definition configB :: config where
  "configB = \<lparr>width = 800, height = 400,
     margin = \<lparr>top = 20, right = 150, bottom = 60, left = 150\<rparr>\<rparr>"

definition configP :: config where
  "configP = \<lparr>width = 800, height = 400,
     margin = \<lparr>top = 20, right = 150, bottom = 60, left = 150\<rparr>\<rparr>"

section \<open>The data records\<close>

text \<open>
  \<open>integrateVisualizations\<close> builds \<open>{streams, reach, track, artist}\<close> for the scatter
  plot (both numbers through \<open>parseFloat\<close>), \<open>{artist, streams}\<close> for the bar chart and
  \<open>{platform, total, average, median}\<close> for the comparison chart.
\<close>

record 'n artist_record =
  artist :: string
  streams :: 'n

record track_record = "jsnum artist_record" +
  reach :: jsnum
  track :: string

record platform_record =
  platform :: string
  total :: jsnum
  average :: jsnum
  median :: jsnum

datatype metric = Total | Average | Median

text \<open>\<open>d[metric]\<close>, and the metric as the string the source passes around.\<close>

fun field :: "metric \<Rightarrow> platform_record \<Rightarrow> jsnum" where
  "field Total d = total d"
| "field Average d = average d"
| "field Median d = median d"

fun metric_name :: "metric \<Rightarrow> string" where
  "metric_name Total = ''total''"
| "metric_name Average = ''average''"
| "metric_name Median = ''median''"

section \<open>Marks, tooltips and pointer events\<close>

text \<open>
  The presentation of a mark: the attributes and the inline style the handlers write.
  \<open>None\<close> is an attribute that is not set. A transition is modelled by the values it
  ends on: a later transition on the same attribute replaces an earlier one.
\<close>

record appearance =
  fill :: "string option"
  opacity :: "rat option"
  style_opacity :: "rat option"
  stroke :: "string option"
  stroke_width :: "rat option"


record circle = appearance +
  cx :: "jsnum option"
  cy :: "jsnum option"
  r :: rat

record rect = appearance +
  x_attr :: "jsnum option"
  y_attr :: "jsnum option"
  width_attr :: "jsnum option"
  height_attr :: "jsnum option"

text \<open>
  A tooltip \<open>div\<close>: its opacity, the labelled fields of the template literal its
  \<open>html\<close> was set from (markup and white space left out), and its position in pixels.
\<close>

record tooltip =
  tip_opacity :: rat
  tip_html :: "(string \<times> string) list"
  tip_left :: "rat option"
  tip_top :: "rat option"

definition new_tooltip :: tooltip where
  "new_tooltip = \<lparr>tip_opacity = 0, tip_html = [], tip_left = None, tip_top = None\<rparr>"

record event =
  pageX :: rat
  pageY :: rat

text \<open>\<open>a - b\<close> where \<open>b\<close> is the result of a scale call: \<open>undefined\<close> and \<open>NaN\<close> give \<open>NaN\<close>.\<close>

fun js_minus :: "rat \<Rightarrow> jsnum option \<Rightarrow> jsnum" where
  "js_minus a (Some (Num b)) = Num (a - b)"
| "js_minus a _ = NaN"

section \<open>The scatter plot\<close>

text \<open>The zoom transform of d3-zoom: scale \<open>k\<close> and translation \<open>(x, y)\<close>.\<close>

record transform =
  tf_k :: rat
  tf_x :: rat
  tf_y :: rat

definition zoomIdentity :: transform where
  "zoomIdentity = \<lparr>tf_k = 1, tf_x = 0, tf_y = 0\<rparr>"


record scatter_chart =
  dataS :: "track_record list"
  xS :: scaleLinear
  yS :: scaleLinear
  circles :: "circle list"
  tooltipS :: tooltip
  zoomS :: transform

text \<open>
  \<open>createScatterPlot\<close>: the x scale has the domain \<open>d3.extent(data, d => d.streams)\<close>,
  the y scale the domain \<open>[0, d3.max(data, d => d.reach)]\<close>; one circle per record, in
  the order of the data, green with the inline style \<open>opacity: 0.7\<close>; a tooltip of its
  own appended to the body; the zoom behaviour starts from the identity.
\<close>

definition extent_domain :: "jsnum list \<Rightarrow> jsnum \<times> jsnum" where
  "extent_domain vs = (case d3_extent vs of None \<Rightarrow> (NaN, NaN) | Some (lo, hi) \<Rightarrow> (lo, hi))"

definition new_circle :: "scaleLinear \<Rightarrow> scaleLinear \<Rightarrow> track_record \<Rightarrow> circle" where
  "new_circle sx sy d =
     \<lparr>fill = Some ''#1DB954'', opacity = None, style_opacity = Some (7 / 10),
      stroke = None, stroke_width = None,
      cx = scale_call sx (streams d), cy = scale_call sy (reach d), r = 5\<rparr>"

definition createScatterPlot :: "track_record list \<Rightarrow> scatter_chart" where
  "createScatterPlot data =
     (let sx = \<lparr>domain_of = extent_domain (map streams data),
                range_of = (left (margin configS), width configS - right (margin configS))\<rparr>;
          sy = \<lparr>domain_of = (Num 0, number (d3_max (map reach data))),
                range_of = (height configS - bottom (margin configS), top (margin configS))\<rparr>
      in \<lparr>dataS = data, xS = sx, yS = sy,
          circles = map (new_circle sx sy) data,
          tooltipS = new_tooltip, zoomS = zoomIdentity\<rparr>)"

text \<open>
  The hover handlers of the circles. \<open>mouseover\<close> on circle \<open>i\<close> ends with the
  attributes \<open>fill = #191414\<close> and \<open>opacity = 0.5\<close>, the tooltip at opacity 0.9, filled
  from the record bound to the circle and placed at \<open>(pageX + 10, pageY - 20)\<close>;
  \<open>mouseout\<close> ends with \<open>fill = #1DB954\<close>, \<open>opacity = 1\<close> and the tooltip at
  opacity 0. \<open>toLocaleString\<close> is the built-in, taken as the parameter \<open>loc\<close>.
\<close>

definition tooltip_show :: "(string \<times> string) list \<Rightarrow> event \<Rightarrow> tooltip \<Rightarrow> tooltip" where
  "tooltip_show rows ev t =
     t\<lparr>tip_opacity := 9 / 10, tip_html := rows,
       tip_left := Some (pageX ev + 10), tip_top := Some (pageY ev - 20)\<rparr>"

definition tooltip_hide :: "tooltip \<Rightarrow> tooltip" where
  "tooltip_hide t = t\<lparr>tip_opacity := 0\<rparr>"

definition mouseoverS :: "(jsnum \<Rightarrow> string) \<Rightarrow> nat \<Rightarrow> event \<Rightarrow> scatter_chart \<Rightarrow> scatter_chart" where
  "mouseoverS loc i ev c =
     (if i < length (circles c) \<and> i < length (dataS c) then
        (let d = dataS c ! i in
         c\<lparr>circles := (circles c)[i := (circles c ! i)\<lparr>fill := Some ''#191414'', opacity := Some (1 / 2)\<rparr>],
           tooltipS := tooltip_show
             [(''Track'', track d), (''Artist'', artist d),
              (''Streams'', loc (streams d)), (''Reach'', loc (reach d))] ev (tooltipS c)\<rparr>)
      else c)"

definition mouseoutS :: "nat \<Rightarrow> scatter_chart \<Rightarrow> scatter_chart" where
  "mouseoutS i c =
     (if i < length (circles c) then
        c\<lparr>circles := (circles c)[i := (circles c ! i)\<lparr>fill := Some ''#1DB954'', opacity := Some 1\<rparr>],
          tooltipS := tooltip_hide (tooltipS c)\<rparr>
      else c)"












section \<open>Band scales\<close>

text \<open>
  Setting the domain of an ordinal scale keeps the first occurrence of each value
  (d3-scale, \<open>ordinal.js\<close>).
\<close>

definition ordinal_domain :: "string list \<Rightarrow> string list" where
  "ordinal_domain vs = foldl (\<lambda>dom v. if v \<in> set dom then dom else dom @ [v]) [] vs"

record scaleBand =
  band_domain :: "string list"
  band_range :: "rat \<times> rat"
  band_padding :: rat

text \<open>
  \<open>rescale\<close> of d3-scale's \<open>band.js\<close> with alignment 0.5 and no rounding: the step, the
  start of the first band and the band width. With a reversed range the bands are laid
  out from the far end.
\<close>

definition band_step :: "scaleBand \<Rightarrow> rat" where
  "band_step s =
     (let n = of_nat (length (band_domain s)); r0 = fst (band_range s); r1 = snd (band_range s);
          start = (if r1 < r0 then r1 else r0); stop = (if r1 < r0 then r0 else r1)
      in (stop - start) / max 1 (n - band_padding s + band_padding s * 2))"

definition band_start :: "scaleBand \<Rightarrow> rat" where
  "band_start s =
     (let n = of_nat (length (band_domain s)); r0 = fst (band_range s); r1 = snd (band_range s);
          start = (if r1 < r0 then r1 else r0); stop = (if r1 < r0 then r0 else r1)
      in start + (stop - start - band_step s * (n - band_padding s)) * (1 / 2))"

definition bandwidth :: "scaleBand \<Rightarrow> rat" where
  "bandwidth s = band_step s * (1 - band_padding s)"

fun index_of :: "string \<Rightarrow> string list \<Rightarrow> nat option" where
  "index_of v [] = None"
| "index_of v (w # ws) = (if v = w then Some 0 else map_option Suc (index_of v ws))"

definition band_call :: "scaleBand \<Rightarrow> string \<Rightarrow> jsnum option" where
  "band_call s v =
     (case index_of v (band_domain s) of
        None \<Rightarrow> None
      | Some i \<Rightarrow>
          (let n = length (band_domain s);
               j = (if snd (band_range s) < fst (band_range s) then n - 1 - i else i)
           in Some (Num (band_start s + band_step s * of_nat j))))"

text \<open>\<open>x(v) - m\<close> for the result of a scale call.\<close>

fun js_sub :: "jsnum option \<Rightarrow> rat \<Rightarrow> jsnum" where
  "js_sub (Some (Num a)) m = Num (a - m)"
| "js_sub _ m = NaN"

section \<open>The bar chart of the top artists\<close>

text \<open>
  The comparators of d3 and \<open>Array.prototype.sort\<close>. The streams of an artist record
  come from the JSON payload as they are, so they are finite numbers. The sort of the
  language is stable and sorts by the sign of the comparator; it is written as an
  insertion sort, an element going in front of the first one it does not compare
  greater than.
\<close>

definition d3_ascending :: "rat \<Rightarrow> rat \<Rightarrow> int" where
  "d3_ascending a b = (if a < b then - 1 else if a > b then 1 else 0)"

definition d3_descending :: "rat \<Rightarrow> rat \<Rightarrow> int" where
  "d3_descending a b = (if b < a then - 1 else if b > a then 1 else 0)"

fun sort_insert :: "('a \<Rightarrow> 'a \<Rightarrow> int) \<Rightarrow> 'a \<Rightarrow> 'a list \<Rightarrow> 'a list" where
  "sort_insert cmp a [] = [a]"
| "sort_insert cmp a (b # bs) =
     (if cmp a b \<le> 0 then a # b # bs else b # sort_insert cmp a bs)"

fun array_sort :: "('a \<Rightarrow> 'a \<Rightarrow> int) \<Rightarrow> 'a list \<Rightarrow> 'a list" where
  "array_sort cmp [] = []"
| "array_sort cmp (a # as) = sort_insert cmp a (array_sort cmp as)"

text \<open>
  A bar is a \<open>rect\<close> with the record bound to it. The labels at the end of the bars
  are left out of the model.
\<close>

record bar_chart =
  dataB :: "rat artist_record list"
  sortedAscending :: bool
  xB :: scaleLinear
  yB :: scaleBand
  barsB :: "(rat artist_record \<times> rect) list"

definition new_barB :: "scaleLinear \<Rightarrow> scaleBand \<Rightarrow> rat artist_record \<Rightarrow> rat artist_record \<times> rect" where
  "new_barB sx sy d =
     (d, \<lparr>fill = Some ''#1DB954'', opacity = Some (7 / 10), style_opacity = None,
          stroke = None, stroke_width = None,
          x_attr = Some (Num (left (margin configB))),
          y_attr = band_call sy (artist d),
          width_attr = Some (js_sub (scale_call sx (Num (streams d))) (left (margin configB))),
          height_attr = Some (Num (bandwidth sy))\<rparr>)"

definition createTopArtistChart :: "rat artist_record list \<Rightarrow> bar_chart" where
  "createTopArtistChart data =
     (let sx = \<lparr>domain_of = (Num 0, number (d3_max (map (\<lambda>d. Num (streams d)) data))),
                range_of = (left (margin configB), width configB - right (margin configB))\<rparr>;
          sy = \<lparr>band_domain = ordinal_domain (map artist data),
                band_range = (height configB - bottom (margin configB), top (margin configB)),
                band_padding = 1 / 10\<rparr>
      in \<lparr>dataB = data, sortedAscending = True, xB = sx, yB = sy,
          barsB = map (new_barB sx sy) data\<rparr>)"

text \<open>
  The keyed data join of \<open>sortBars\<close> (\<open>.data(data, d => d.artist)\<close>, d3-selection's
  \<open>bindKey\<close>): a bar whose key an earlier bar already has leaves the update selection;
  every other bar is bound to the first record of the data with its key and moves to
  the band of that record.
\<close>

fun rebind :: "scaleBand \<Rightarrow> rat artist_record list \<Rightarrow> string list \<Rightarrow>
    (rat artist_record \<times> rect) list \<Rightarrow> (rat artist_record \<times> rect) list" where
  "rebind sy data seen [] = []"
| "rebind sy data seen ((d, e) # bs) =
     (if artist d \<in> set seen then (d, e) # rebind sy data seen bs
      else (case find (\<lambda>d'. artist d' = artist d) data of
              None \<Rightarrow> (d, e) # rebind sy data (artist d # seen) bs
            | Some d' \<Rightarrow>
                (d', e\<lparr>y_attr := band_call sy (artist d')\<rparr>) # rebind sy data (artist d # seen) bs))"

text \<open>
  \<open>sortBars\<close>, the click handler of the Sort button: flip \<open>sortedAscending\<close>, sort the
  data in place with the comparator of the new direction, set the domain of the band
  scale to the artists in the new order, and move the bars.
\<close>

definition sortBars :: "bar_chart \<Rightarrow> bar_chart" where
  "sortBars c =
     (let asc = \<not> sortedAscending c;
          data' = array_sort (\<lambda>a b. if asc then d3_ascending (streams a) (streams b)
                                     else d3_descending (streams a) (streams b)) (dataB c);
          sy = (yB c)\<lparr>band_domain := ordinal_domain (map artist data')\<rparr>
      in c\<lparr>sortedAscending := asc, dataB := data', yB := sy,
           barsB := rebind sy data' [] (barsB c)\<rparr>)"



section \<open>The platform comparison chart\<close>

definition platformColors :: "string \<Rightarrow> string option" where
  "platformColors p =
     (if p = ''Spotify'' then Some ''#1DB954''
      else if p = ''YouTube'' then Some ''#FF0000''
      else if p = ''TikTok'' then Some ''#000000''
      else None)"

text \<open>\<open>metric.charAt(0).toUpperCase() + metric.slice(1)\<close> on ASCII strings.\<close>

definition toUpperCase :: "char \<Rightarrow> char" where
  "toUpperCase c =
     (let n = (of_char c :: nat) in if 97 \<le> n \<and> n \<le> 122 then char_of (n - 32) else c)"

fun capitalize :: "string \<Rightarrow> string" where
  "capitalize [] = []"
| "capitalize (c # cs) = toUpperCase c # cs"

definition y_label_text :: "metric \<Rightarrow> string" where
  "y_label_text m = capitalize (metric_name m) @ '' Streams/Views''"

text \<open>
  \<open>metricP\<close> is the parameter \<open>metric\<close> of \<open>createPlatformComparison\<close>, which the
  tooltip reads; \<open>updateChart\<close> has a parameter of the same name and does not assign
  the outer one.
\<close>

record platform_chart =
  dataP :: "platform_record list"
  metricP :: metric
  xP :: scaleBand
  yP :: scaleLinear
  barsP :: "rect list"
  y_label :: string
  tooltipP :: tooltip

definition plot_bottom :: rat where
  "plot_bottom = height configP - bottom (margin configP)"

definition new_barP :: "scaleBand \<Rightarrow> scaleLinear \<Rightarrow> metric \<Rightarrow> platform_record \<Rightarrow> rect" where
  "new_barP sx sy m d =
     \<lparr>fill = platformColors (platform d), opacity = None, style_opacity = None,
      stroke = None, stroke_width = None,
      x_attr = band_call sx (platform d),
      y_attr = scale_call sy (field m d),
      width_attr = Some (Num (bandwidth sx)),
      height_attr = Some (js_minus plot_bottom (scale_call sy (field m d)))\<rparr>"

definition createPlatformComparison :: "platform_record list \<Rightarrow> metric \<Rightarrow> platform_chart" where
  "createPlatformComparison data m =
     (let sx = \<lparr>band_domain = ordinal_domain (map platform data),
                band_range = (left (margin configP), width configP - right (margin configP)),
                band_padding = 1 / 10\<rparr>;
          sy = \<lparr>domain_of = (Num 0, number (d3_max (map (field m) data))),
                range_of = (plot_bottom, top (margin configP))\<rparr>
      in \<lparr>dataP = data, metricP = m, xP = sx, yP = sy,
          barsP = map (new_barP sx sy m) data,
          y_label = y_label_text m, tooltipP = new_tooltip\<rparr>)"

text \<open>
  \<open>updateChart(metric)\<close>: the domain of the y scale becomes
  \<open>[0, d3.max(data, d => d[metric])]\<close>, every bar moves to the new \<open>y\<close> and
  \<open>height\<close> of its record, and the label of the y axis is rewritten.
\<close>

definition move_barP :: "scaleLinear \<Rightarrow> metric \<Rightarrow> rect \<times> platform_record \<Rightarrow> rect" where
  "move_barP sy m ed =
     (fst ed)\<lparr>y_attr := scale_call sy (field m (snd ed)),
              height_attr := Some (js_minus plot_bottom (scale_call sy (field m (snd ed))))\<rparr>"

definition updateChart :: "metric \<Rightarrow> platform_chart \<Rightarrow> platform_chart" where
  "updateChart m c =
     (let sy = (yP c)\<lparr>domain_of := (Num 0, number (d3_max (map (field m) (dataP c))))\<rparr>
      in c\<lparr>yP := sy,
           barsP := map (move_barP sy m) (zip (barsP c) (dataP c)),
           y_label := y_label_text m\<rparr>)"




text \<open>The hover handlers of the platform bars.\<close>

definition mouseoverP :: "(jsnum \<Rightarrow> string) \<Rightarrow> nat \<Rightarrow> event \<Rightarrow> platform_chart \<Rightarrow> platform_chart" where
  "mouseoverP loc i ev c =
     (if i < length (barsP c) \<and> i < length (dataP c) then
        (let d = dataP c ! i in
         c\<lparr>barsP := (barsP c)[i := (barsP c ! i)\<lparr>fill := platformColors (platform d), opacity := Some (1 / 2)\<rparr>],
           tooltipP := tooltip_show
             [(''Track'', platform d), (''Streams/Views'', loc (field (metricP c) d))] ev (tooltipP c)\<rparr>)
      else c)"

definition mouseoutP :: "nat \<Rightarrow> platform_chart \<Rightarrow> platform_chart" where
  "mouseoutP i c =
     (if i < length (barsP c) \<and> i < length (dataP c) then
        c\<lparr>barsP := (barsP c)[i := (barsP c ! i)\<lparr>fill := platformColors (platform (dataP c ! i)), opacity := Some 1\<rparr>],
          tooltipP := tooltip_hide (tooltipP c)\<rparr>
      else c)"

section \<open>Event traces\<close>











section \<open>The dashboard\<close>

text \<open>
  The payloads of the three endpoints, as \<open>response.json()\<close> decodes them, and the
  outcome of a \<open>fetch\<close>: the promise rejects, or a response arrives with its \<open>ok\<close>
  flag and its body (\<open>None\<close> when the body is not JSON and \<open>json()\<close> rejects).
\<close>

datatype json =
    JNull
  | JBool bool
  | JNum rat
  | JStr string
  | JArr "json list"
  | JObj "(string \<times> json) list"

datatype fetched = Rejected | Responded bool "json option"

datatype js_error = TypeError | SyntaxError | NetworkError

datatype log_entry = Log string | Error string

text \<open>
  \<open>tracksData.data.map(d => ({streams: parseFloat(d["Spotify Streams"]), ...}))\<close>:
  reading \<open>data\<close> of \<open>null\<close> throws, \<open>map\<close> exists on an array only, and the callback
  throws on an element that is \<open>null\<close>. The result is the list of rows.
\<close>

definition has_null :: "json list \<Rightarrow> bool" where
  "has_null vs = (JNull \<in> set vs)"

fun scatterData :: "json \<Rightarrow> js_error + json list" where
  "scatterData (JObj kvs) =
     (case map_of (rev kvs) ''data'' of
        Some (JArr rows) \<Rightarrow> if has_null rows then Inl TypeError else Inr rows
      | _ \<Rightarrow> Inl TypeError)"
| "scatterData _ = Inl TypeError"

text \<open>\<open>topArtistsData.map(d => ({artist: d["Artist"], streams: d["Spotify Streams"]}))\<close>\<close>

fun barChartData :: "json \<Rightarrow> js_error + json list" where
  "barChartData (JArr rows) = (if has_null rows then Inl TypeError else Inr rows)"
| "barChartData _ = Inl TypeError"

text \<open>
  \<open>Object.keys(platformsData).map(platform => ({platform, total:
  platformsData[platform].total, ...}))\<close>: \<open>Object.keys\<close> throws on \<open>null\<close>, gives the
  keys of an object, the indices of an array or of a string and nothing for a number
  or a boolean; reading \<open>total\<close> throws on a value that is \<open>null\<close>. The result is the
  list of the values, one per key.
\<close>

fun own_values :: "json \<Rightarrow> js_error + json list" where
  "own_values JNull = Inl TypeError"
| "own_values (JObj kvs) = Inr (map (\<lambda>k. the (map_of (rev kvs) k)) (remdups (map fst kvs)))"
| "own_values (JArr vs) = Inr vs"
| "own_values (JStr s) = Inr (map (\<lambda>ch. JStr [ch]) s)"
| "own_values _ = Inr []"

definition platformData :: "json \<Rightarrow> js_error + json list" where
  "platformData j =
     (case own_values j of
        Inl e \<Rightarrow> Inl e
      | Inr vs \<Rightarrow> if has_null vs then Inl TypeError else Inr vs)"

text \<open>
  The part of the document the dashboard writes: for each of the three cards the marks
  of every svg appended to it, for each controls region the labels of its buttons
  (\<open>None\<close> while the element does not exist), the number of tooltips appended to the
  body, and the console. \<open>element_ids\<close> are the ids of the other elements of the page.
\<close>

record page =
  element_ids :: "string list"
  scatterPlot :: "nat list option"
  controlsS :: "string list option"
  topArtists :: "nat list option"
  controlsB :: "string list option"
  platformComparison :: "nat list option"
  controlsP :: "string list option"
  body_tooltips :: nat
  console :: "log_entry list"

definition append_svg :: "nat \<Rightarrow> nat list option \<Rightarrow> nat list option" where
  "append_svg n children = map_option (\<lambda>svgs. svgs @ [n]) children"

text \<open>
  What the three constructors add to the document for a data array of \<open>n\<close> records:
  \<open>controls.appendChild\<close> throws when the controls region is missing; the svg goes to
  the end of the card (appending to an empty selection does nothing); the scatter plot
  and the comparison chart each append a tooltip to the body.
\<close>

definition createScatterPlot_dom :: "nat \<Rightarrow> page \<Rightarrow> js_error + page" where
  "createScatterPlot_dom n p =
     (case controlsS p of
        None \<Rightarrow> Inl TypeError
      | Some bs \<Rightarrow> Inr (p\<lparr>controlsS := Some (bs @ [''Reset Zoom'', ''Update Data'']),
                          scatterPlot := append_svg n (scatterPlot p),
                          body_tooltips := body_tooltips p + 1\<rparr>))"

definition createTopArtistChart_dom :: "nat \<Rightarrow> page \<Rightarrow> js_error + page" where
  "createTopArtistChart_dom n p =
     (case controlsB p of
        None \<Rightarrow> Inl TypeError
      | Some bs \<Rightarrow> Inr (p\<lparr>controlsB := Some (bs @ [''Sort'']),
                          topArtists := append_svg n (topArtists p)\<rparr>))"

definition createPlatformComparison_dom :: "nat \<Rightarrow> page \<Rightarrow> js_error + page" where
  "createPlatformComparison_dom n p =
     (case controlsP p of
        None \<Rightarrow> Inl TypeError
      | Some bs \<Rightarrow> Inr (p\<lparr>controlsP := Some (bs @ [''Total'', ''Median'', ''Average'']),
                          platformComparison := append_svg n (platformComparison p),
                          body_tooltips := body_tooltips p + 1\<rparr>))"

definition console_log :: "string \<Rightarrow> page \<Rightarrow> page" where
  "console_log s p = p\<lparr>console := console p @ [Log s]\<rparr>"

definition console_error :: "string \<Rightarrow> page \<Rightarrow> page" where
  "console_error s p = p\<lparr>console := console p @ [Error s]\<rparr>"

text \<open>
  \<open>integrateVisualizations\<close>. It runs to its first \<open>await\<close> at once
  (\<open>integrate_start\<close>: the log line; the three requests are sent). The rest
  (\<open>integrate_finish\<close>) runs when \<open>Promise.all\<close> has settled, on the outcomes of the
  three requests: the body of the \<open>try\<close> stops at the first rejection or exception, and
  the \<open>catch\<close> logs one error; what was added to the document before stays. The
  result is the document and whether a controller was returned (\<open>False\<close>:
  \<open>undefined\<close>). The \<open>ok\<close> flag of a response is never read.
\<close>

definition integrate_start :: "page \<Rightarrow> page" where
  "integrate_start p = console_log ''Initializing dashboard visualizations...'' p"

definition catch_error :: "page \<Rightarrow> page \<times> bool" where
  "catch_error p = (console_error ''Error loading visualization data:'' p, False)"

fun body_of :: "fetched \<Rightarrow> json option" where
  "body_of Rejected = None"
| "body_of (Responded ok b) = b"

definition create_all :: "json list \<Rightarrow> json list \<Rightarrow> json list \<Rightarrow> page \<Rightarrow> page \<times> bool" where
  "create_all s b pl p =
     (case createScatterPlot_dom (length s) p of
        Inl e \<Rightarrow> catch_error p
      | Inr p1 \<Rightarrow>
          (case createTopArtistChart_dom (length b) p1 of
             Inl e \<Rightarrow> catch_error p1
           | Inr p2 \<Rightarrow>
               (case createPlatformComparison_dom (length pl) p2 of
                  Inl e \<Rightarrow> catch_error p2
                | Inr p3 \<Rightarrow> (p3, True))))"

definition integrate_finish :: "fetched \<times> fetched \<times> fetched \<Rightarrow> page \<Rightarrow> page \<times> bool" where
  "integrate_finish fs p =
     (case fs of (tracksResponse, artistsResponse, platformsResponse) \<Rightarrow>
        if tracksResponse = Rejected \<or> artistsResponse = Rejected \<or> platformsResponse = Rejected
        then catch_error p
        else
          (case (body_of tracksResponse, body_of artistsResponse, body_of platformsResponse) of
             (Some tracksData, Some topArtistsData, Some platformsData) \<Rightarrow>
               (let p0 = console_log ''Fetched all visualization data:'' p in
                case scatterData tracksData of
                  Inl e \<Rightarrow> catch_error p0
                | Inr s \<Rightarrow>
                    (case barChartData topArtistsData of
                       Inl e \<Rightarrow> catch_error p0
                     | Inr b \<Rightarrow>
                         (case platformData platformsData of
                            Inl e \<Rightarrow> catch_error p0
                          | Inr pl \<Rightarrow> create_all s b pl p0)))
           | _ \<Rightarrow> catch_error p))"

definition integrateVisualizations :: "fetched \<times> fetched \<times> fetched \<Rightarrow> page \<Rightarrow> page \<times> bool" where
  "integrateVisualizations fs p = integrate_finish fs (integrate_start p)"

text \<open>
  \<open>initializeDashboard\<close>: without the container it logs an error and returns \<open>null\<close>
  (\<open>False\<close>). Otherwise it replaces the content of the container by the three empty
  cards, awaits \<open>integrateVisualizations\<close>, and returns the handle, or logs a second
  error and returns \<open>null\<close> when no controller came back.
\<close>

definition set_innerHTML :: "page \<Rightarrow> page" where
  "set_innerHTML p =
     p\<lparr>scatterPlot := Some [], controlsS := Some [],
       topArtists := Some [], controlsB := Some [],
       platformComparison := Some [], controlsP := Some []\<rparr>"

definition initializeDashboard :: "string \<Rightarrow> fetched \<times> fetched \<times> fetched \<Rightarrow> page \<Rightarrow> page \<times> bool" where
  "initializeDashboard containerId fs p =
     (let p0 = console_log (''Initializing dashboard in containerId: #'' @ containerId) p in
      if containerId \<notin> set (element_ids p0)
      then (console_error (''Error: Container with ID \"'' @ containerId @ ''\" not found.'') p0, False)
      else
        (case integrateVisualizations fs (set_innerHTML p0) of
           (p1, False) \<Rightarrow> (console_error ''Failed to initialize visualizations.'' p1, False)
         | (p1, True) \<Rightarrow> (p1, True)))"

text \<open>
  \<open>refresh\<close> of the returned handle: \<open>async () => { console.log(...);
  integrateVisualizations(config); }\<close>. The call is not awaited, so the promise of
  \<open>refresh\<close> resolves in the state \<open>refresh\<close> gives, when the new requests have only been
  sent; \<open>refresh_settled\<close> is the document once they have settled and the rest of
  \<open>integrateVisualizations\<close> has run.
\<close>

definition refresh :: "page \<Rightarrow> page" where
  "refresh p = integrate_start (console_log ''Refreshing dashboard visualizations...'' p)"

definition refresh_settled :: "fetched \<times> fetched \<times> fetched \<Rightarrow> page \<Rightarrow> page" where
  "refresh_settled fs p = fst (integrate_finish fs (refresh p))"

definition errors_logged :: "page \<Rightarrow> nat" where
  "errors_logged p = length (filter (\<lambda>e. case e of Error s \<Rightarrow> True | Log s \<Rightarrow> False) (console p))"

text \<open>The document outside the console: what is on the screen.\<close>

definition rendered :: "page \<Rightarrow> page" where
  "rendered p = p\<lparr>console := []\<rparr>"

text \<open>
  A load fails when a request is rejected, when a body is not JSON, or when a payload
  does not have the shape its decoding reads.
\<close>

fun decodes :: "(json \<Rightarrow> js_error + json list) \<Rightarrow> fetched \<Rightarrow> bool" where
  "decodes dec Rejected = False"
| "decodes dec (Responded ok None) = False"
| "decodes dec (Responded ok (Some j)) = (\<not> isl (dec j))"

definition load_failed :: "fetched \<times> fetched \<times> fetched \<Rightarrow> bool" where
  "load_failed fs =
     (case fs of (tracksResponse, artistsResponse, platformsResponse) \<Rightarrow>
        \<not> (decodes scatterData tracksResponse \<and> decodes barChartData artistsResponse
           \<and> decodes platformData platformsResponse))"

section \<open>Notions the theorems use\<close>

text \<open>A list of numbers in the direction of the sort flag.\<close>

definition sorted_dir :: "bool \<Rightarrow> rat list \<Rightarrow> bool" where
  "sorted_dir asc vs = (if asc then sorted_wrt (\<le>) vs else sorted_wrt (\<ge>) vs)"



section \<open>Tick formatting\<close>

text \<open>
  \<open>customFormat\<close> turns a number into a string, so here the binary64 arithmetic is
  written out. A finite number is the rational it denotes. \<open>fl64\<close> rounds a rational to
  the nearest binary64 value, ties to the even significand: with \<open>e\<close> the binary
  exponent of the value, not below that of the subnormal numbers, the value is rounded
  to a multiple of \<open>2 ^ (e - 52)\<close>. \<open>ilog b q\<close> is the integer \<open>e\<close> with
  \<open>b ^ e \<le> q < b ^ (e + 1)\<close>, for \<open>q > 0\<close>.
\<close>

definition pow_int :: "int \<Rightarrow> int \<Rightarrow> rat" where
  "pow_int b k = (if 0 \<le> k then of_int b ^ nat k else 1 / of_int b ^ nat (- k))"

function count_digits :: "int \<Rightarrow> int \<Rightarrow> int" where
  "count_digits b a = (if 0 < a \<and> 1 < b then count_digits b (a div b) + 1 else 0)"
  by pat_completeness auto
termination
  by (relation "measure (\<lambda>(b, a). nat a)") (auto simp: int_div_less_self zless_nat_conj)

declare count_digits.simps [simp del]

definition ilog :: "int \<Rightarrow> rat \<Rightarrow> int" where
  "ilog b q =
     (if 1 \<le> q then count_digits b \<lfloor>q\<rfloor> - 1
      else - count_digits b (\<lceil>1 / q\<rceil> - 1))"

definition round_half_even :: "rat \<Rightarrow> int" where
  "round_half_even m =
     (let f = \<lfloor>m\<rfloor>; d = m - of_int f
      in if d < 1 / 2 then f else if 1 / 2 < d then f + 1 else if even f then f else f + 1)"

definition fl64 :: "rat \<Rightarrow> rat" where
  "fl64 q =
     (if q = 0 then 0
      else (let ulp = pow_int 2 (max (ilog 2 \<bar>q\<bar>) (- 1022) - 52)
            in sgn q * of_int (round_half_even (\<bar>q\<bar> / ulp)) * ulp))"

text \<open>\<open>a / b\<close> of two finite numbers, \<open>b\<close> not zero.\<close>

definition js_div :: "rat \<Rightarrow> rat \<Rightarrow> rat" where
  "js_div a b = fl64 (a / b)"

text \<open>The decimal digits of an integer that is not negative.\<close>

definition digit_char :: "int \<Rightarrow> char" where
  "digit_char d = char_of (48 + d)"

function digits :: "int \<Rightarrow> string" where
  "digits n = (if n < 10 then [digit_char n] else digits (n div 10) @ [digit_char (n mod 10)])"
  by pat_completeness auto
termination
  by (relation "measure nat") (auto simp: int_div_less_self zless_nat_conj)

declare digits.simps [simp del]

text \<open>
  \<open>Number::toString\<close> of a finite number (ECMAScript, radix 10). For \<open>x > 0\<close> it
  takes the decimal \<open>s * 10 ^ (n - k)\<close> with the fewest digits \<open>k\<close> that \<open>fl64\<close> rounds
  to \<open>x\<close>, the closest to \<open>x\<close> among those of \<open>k\<close> digits. With \<open>n0\<close> the decimal
  exponent of \<open>x\<close>, the candidates of \<open>k\<close> digits are the two multiples of
  \<open>10 ^ (n0 - k)\<close> around \<open>x\<close>; the search goes from \<open>k\<close> upwards, \<open>fuel\<close> more
  lengths to try (seventeen digits always suffice for a binary64 value), and gives the
  decimal as the integer \<open>s\<close> and the exponent of ten. The upper candidate can end in
  zeros, which \<open>strip_zeros\<close> moves to the exponent.
\<close>

definition closer :: "rat \<Rightarrow> int \<Rightarrow> int \<Rightarrow> int \<Rightarrow> int" where
  "closer x e lo hi =
     (let dl = x - of_int lo * pow_int 10 e; dh = of_int hi * pow_int 10 e - x
      in if dl < dh then lo else if dh < dl then hi else if even lo then lo else hi)"

fun shortest :: "rat \<Rightarrow> int \<Rightarrow> nat \<Rightarrow> nat \<Rightarrow> int \<times> int" where
  "shortest x n0 k 0 = (\<lfloor>x / pow_int 10 (n0 - int k)\<rfloor>, n0 - int k)"
| "shortest x n0 k (Suc fuel) =
     (let e = n0 - int k; lo = \<lfloor>x / pow_int 10 e\<rfloor>; hi = lo + 1;
          rlo = (fl64 (of_int lo * pow_int 10 e) = x);
          rhi = (fl64 (of_int hi * pow_int 10 e) = x)
      in if rlo \<and> rhi then (closer x e lo hi, e)
         else if rlo then (lo, e)
         else if rhi then (hi, e)
         else shortest x n0 (Suc k) fuel)"

fun strip_zeros :: "nat \<Rightarrow> int \<times> int \<Rightarrow> int \<times> int" where
  "strip_zeros 0 se = se"
| "strip_zeros (Suc fuel) (s, e) =
     (if s \<noteq> 0 \<and> s mod 10 = 0 then strip_zeros fuel (s div 10, e + 1) else (s, e))"

definition exponent_part :: "int \<Rightarrow> string" where
  "exponent_part n =
     ''e'' @ (if 0 < n - 1 then ''+'' else ''-'') @ digits \<bar>n - 1\<bar>"

definition layout :: "string \<Rightarrow> int \<Rightarrow> string" where
  "layout ds n =
     (let k = int (length ds)
      in if k \<le> n \<and> n \<le> 21 then ds @ replicate (nat (n - k)) CHR ''0''
         else if 0 < n \<and> n \<le> 21 then take (nat n) ds @ ''.'' @ drop (nat n) ds
         else if - 6 < n \<and> n \<le> 0 then ''0.'' @ replicate (nat (- n)) CHR ''0'' @ ds
         else if k = 1 then ds @ exponent_part n
         else take 1 ds @ ''.'' @ drop 1 ds @ exponent_part n)"

definition toString_pos :: "rat \<Rightarrow> string" where
  "toString_pos x =
     (let n0 = ilog 10 x + 1;
          (s, e) = shortest x n0 1 17;
          (s', e') = strip_zeros 20 (s, e);
          ds = digits s'
      in layout ds (int (length ds) + e'))"

definition Number_toString :: "rat \<Rightarrow> string" where
  "Number_toString x =
     (if x = 0 then ''0''
      else if x < 0 then ''-'' @ toString_pos (- x)
      else toString_pos x)"

text \<open>
  \<open>Number.prototype.toFixed(1)\<close> of a finite number: the sign apart, a value of
  \<open>10 ^ 21\<close> or more is printed by \<open>Number::toString\<close>; otherwise \<open>n\<close> is the integer
  with \<open>n / 10\<close> closest to the value, the larger of two, and the result is the digits
  of \<open>n\<close>, filled with zeros on the left to two digits, with a point before the last.
\<close>

definition toFixed1 :: "rat \<Rightarrow> string" where
  "toFixed1 x0 =
     (let s = (if x0 < 0 then ''-'' else '''');
          x = (if x0 < 0 then - x0 else x0);
          m = (if 10 ^ 21 \<le> x then Number_toString x
               else (let n = \<lfloor>x * 10 + 1 / 2\<rfloor>;
                         m0 = digits n;
                         m1 = (if length m0 \<le> 1 then replicate (2 - length m0) CHR ''0'' @ m0 else m0);
                         k = length m1
                     in take (k - 1) m1 @ ''.'' @ drop (k - 1) m1))
      in s @ m)"

text \<open>\<open>.replace(/\.0$/, '')\<close>: a string that ends in \<open>.0\<close> loses these two characters.\<close>

definition replace_dot_zero :: "string \<Rightarrow> string" where
  "replace_dot_zero s =
     (if 2 \<le> length s \<and> drop (length s - 2) s = ''.0'' then take (length s - 2) s else s)"

text \<open>
  \<open>customFormat\<close>, which the source defines three times with the same text: in
  \<open>createScatterPlot\<close>, in \<open>createTopArtistChart\<close> and in \<open>createPlatformComparison\<close>.
\<close>

definition customFormatS :: "rat \<Rightarrow> string" where
  "customFormatS d =
     (if d \<ge> 1000000000 then replace_dot_zero (toFixed1 (js_div d 1000000000)) @ ''B''
      else if d \<ge> 1000000 then replace_dot_zero (toFixed1 (js_div d 1000000)) @ ''M''
      else if d \<ge> 1000 then replace_dot_zero (toFixed1 (js_div d 1000)) @ ''K''
      else Number_toString d)"

definition customFormatB :: "rat \<Rightarrow> string" where
  "customFormatB d =
     (if d \<ge> 1000000000 then replace_dot_zero (toFixed1 (js_div d 1000000000)) @ ''B''
      else if d \<ge> 1000000 then replace_dot_zero (toFixed1 (js_div d 1000000)) @ ''M''
      else if d \<ge> 1000 then replace_dot_zero (toFixed1 (js_div d 1000)) @ ''K''
      else Number_toString d)"

definition customFormatP :: "rat \<Rightarrow> string" where
  "customFormatP d =
     (if d \<ge> 1000000000 then replace_dot_zero (toFixed1 (js_div d 1000000000)) @ ''B''
      else if d \<ge> 1000000 then replace_dot_zero (toFixed1 (js_div d 1000000)) @ ''M''
      else if d \<ge> 1000 then replace_dot_zero (toFixed1 (js_div d 1000)) @ ''K''
      else Number_toString d)"

text \<open>
  The words of the specification: a quotient rounded to one decimal, the half upwards,
  printed without a trailing \<open>.0\<close>; and the string of an integer.
\<close>

definition one_decimal :: "rat \<Rightarrow> string" where
  "one_decimal q =
     (let t = \<lfloor>q * 10 + 1 / 2\<rfloor>
      in if t mod 10 = 0 then digits (t div 10)
         else digits (t div 10) @ ''.'' @ digits (t mod 10))"

definition integer_string :: "int \<Rightarrow> string" where
  "integer_string i = (if i < 0 then ''-'' @ digits (- i) else digits i)"

definition format_spec :: "rat \<Rightarrow> string" where
  "format_spec v =
     (if v \<ge> 10 ^ 9 then one_decimal (js_div v (10 ^ 9)) @ ''B''
      else if v \<ge> 10 ^ 6 then one_decimal (js_div v (10 ^ 6)) @ ''M''
      else if v \<ge> 10 ^ 3 then one_decimal (js_div v (10 ^ 3)) @ ''K''
      else integer_string \<lfloor>v\<rfloor>)"

section \<open>Example data\<close>

text \<open>The records the testable properties of the specification name.\<close>

definition track1 :: track_record where
  "track1 = \<lparr>artist = ''X'', streams = Num 1000, reach = Num 2000, track = ''A''\<rparr>"

definition spotify1 :: platform_record where
  "spotify1 = \<lparr>platform = ''Spotify'', total = Num 100, average = Num 10, median = Num 5\<rparr>"

text \<open>
  A page with the container \<open>#dashboard\<close> and nothing rendered, one well-formed payload
  per endpoint, and the JSON body of an error response.
\<close>

definition page0 :: page where
  "page0 = \<lparr>element_ids = [''dashboard''], scatterPlot = None, controlsS = None,
     topArtists = None, controlsB = None, platformComparison = None, controlsP = None,
     body_tooltips = 0, console = []\<rparr>"

definition tracks_json :: json where
  "tracks_json = JObj [(''data'', JArr [JObj [(''Spotify Streams'', JStr ''1000''),
     (''Spotify Playlist Reach'', JStr ''2000''), (''Track'', JStr ''A''), (''Artist'', JStr ''X'')]])]"

definition artists_json :: json where
  "artists_json = JArr [JObj [(''Artist'', JStr ''X''), (''Spotify Streams'', JNum 1000)]]"

definition platforms_json :: json where
  "platforms_json = JObj [(''Spotify'',
     JObj [(''total'', JNum 100), (''average'', JNum 10), (''median'', JNum 5)])]"

definition error_json :: json where
  "error_json = JObj [(''detail'', JStr ''Not Found'')]"

definition fetches_ok :: "fetched \<times> fetched \<times> fetched" where
  "fetches_ok = (Responded True (Some tracks_json), Responded True (Some artists_json),
     Responded True (Some platforms_json))"

text \<open>Three artists, in an order that is neither ascending nor descending.\<close>

definition artists3 :: "rat artist_record list" where
  "artists3 = [\<lparr>artist = ''A'', streams = 1\<rparr>, \<lparr>artist = ''B'', streams = 3\<rparr>,
     \<lparr>artist = ''C'', streams = 2\<rparr>]"



text \<open>The platform endpoint answers with an error status and a JSON error body.\<close>

definition fetches_not_ok :: "fetched \<times> fetched \<times> fetched" where
  "fetches_not_ok = (Responded True (Some tracks_json), Responded True (Some artists_json),
     Responded False (Some error_json))"

definition fetches_rejected :: "fetched \<times> fetched \<times> fetched" where
  "fetches_rejected = (Responded True (Some tracks_json), Rejected,
     Responded True (Some platforms_json))"


section \<open>The domains of the linear scales\<close>

lemma d3_max_fold_Some:
  "foldl d3_max_step (Some (Num m)) vs = Some (Num (fold max (finite_values vs) m))"
proof (induction vs arbitrary: m)
  case Nil
  then show ?case by simp
next
  case (Cons v vs)
  show ?case
  proof (cases v)
    case NaN
    then show ?thesis using Cons.IH [of m] by simp
  next
    case (Num a)
    then show ?thesis using Cons.IH [of a] Cons.IH [of m] by (simp add: max_def)
  qed
qed

lemma d3_max_eq:
  "d3_max vs = (if finite_values vs = [] then None else Some (Num (Max (set (finite_values vs)))))"
  unfolding d3_max_def
proof (induction vs)
  case Nil
  then show ?case by simp
next
  case (Cons v vs)
  show ?case
  proof (cases v)
    case NaN
    then show ?thesis using Cons.IH by simp
  next
    case (Num a)
    then show ?thesis by (simp add: d3_max_fold_Some Max.set_eq_fold [symmetric])
  qed
qed

lemma d3_extent_fold_Some:
  "foldl d3_extent_step (Some (Num lo, Num hi)) vs =
     Some (Num (fold min (finite_values vs) lo), Num (fold max (finite_values vs) hi))"
proof (induction vs arbitrary: lo hi)
  case Nil
  then show ?case by simp
next
  case (Cons v vs)
  show ?case
  proof (cases v)
    case NaN
    then show ?thesis using Cons.IH [of lo hi] by simp
  next
    case (Num a)
    then show ?thesis
      using Cons.IH [of a a] Cons.IH [of lo hi] Cons.IH [of a hi] Cons.IH [of lo a]
      by (simp add: max_def min_def)
  qed
qed

lemma d3_extent_eq:
  "d3_extent vs =
     (if finite_values vs = [] then None
      else Some (Num (Min (set (finite_values vs))), Num (Max (set (finite_values vs)))))"
  unfolding d3_extent_def
proof (induction vs)
  case Nil
  then show ?case by simp
next
  case (Cons v vs)
  show ?case
  proof (cases v)
    case NaN
    then show ?thesis using Cons.IH by simp
  next
    case (Num a)
    then show ?thesis
      by (simp add: d3_extent_fold_Some Max.set_eq_fold [symmetric] Min.set_eq_fold [symmetric])
  qed
qed

text \<open>
  Claim C6, as stated, gives the y scale of the scatter plot the domain
  \<open>[min reach, max reach]\<close>. The source sets it to \<open>[0, d3.max(data, d => d.reach)]\<close>:
  for the single record with reach 2000 the domain is \<open>[0, 2000]\<close>, not
  \<open>[2000, 2000]\<close>.
\<close>

theorem scatter_y_domain_counterexample:
  "domain_of (yS (createScatterPlot [track1])) \<noteq>
     (Num (Min (set (finite_values (map reach [track1])))),
      Num (Max (set (finite_values (map reach [track1])))))"
  by (simp add: createScatterPlot_def track1_def Let_def d3_max_def)

text \<open>
  Claim C6, amended: for every scatter dataset the domain of the x scale is the exact
  \<open>[min, max]\<close> of the streams that are numbers, and the domain of the y scale is
  \<open>[0, max reach]\<close>; the domain of the linear scale of the comparison chart is
  \<open>[0, max of the metric]\<close>, at construction and after every metric switch. Values that
  are \<open>NaN\<close> are skipped, and a bound over no value at all is \<open>NaN\<close>.
\<close>

theorem linear_scale_domains:
  "domain_of (xS (createScatterPlot data)) =
     (if finite_values (map streams data) = [] then (NaN, NaN)
      else (Num (Min (set (finite_values (map streams data)))),
            Num (Max (set (finite_values (map streams data))))))
   \<and> domain_of (yS (createScatterPlot data)) =
     (Num 0, if finite_values (map reach data) = [] then NaN
             else Num (Max (set (finite_values (map reach data)))))
   \<and> domain_of (yP (createPlatformComparison pdata m)) =
     (Num 0, if finite_values (map (field m) pdata) = [] then NaN
             else Num (Max (set (finite_values (map (field m) pdata)))))
   \<and> domain_of (yP (updateChart m c)) =
     (Num 0, if finite_values (map (field m) (dataP c)) = [] then NaN
             else Num (Max (set (finite_values (map (field m) (dataP c))))))"
  by (simp add: createScatterPlot_def createPlatformComparison_def updateChart_def Let_def
      extent_domain_def d3_extent_eq d3_max_eq)

theorem linear_scale_domains_witness:
  "domain_of (xS (createScatterPlot [track1])) = (Num 1000, Num 1000)
   \<and> domain_of (yS (createScatterPlot [track1])) = (Num 0, Num 2000)
   \<and> domain_of (yP (createPlatformComparison [spotify1] Total)) = (Num 0, Num 100)
   \<and> domain_of (yP (updateChart Median (createPlatformComparison [spotify1] Total))) = (Num 0, Num 5)"
  using linear_scale_domains [of "[track1]" "[spotify1]" Total]
    linear_scale_domains [of "[track1]" "[spotify1]" Median "createPlatformComparison [spotify1] Total"]
  by (simp add: track1_def spotify1_def createPlatformComparison_def Let_def)

section \<open>The jitter update of the scatter plot\<close>




section \<open>The zoom transform\<close>





section \<open>Hovering a mark\<close>






section \<open>Switching the metric of the comparison chart\<close>



section \<open>Sorting the bars\<close>

lemma sort_insert_asc:
  "sort_insert (\<lambda>a b. d3_ascending (streams a) (streams b)) d ds = insort_key streams d ds"
  by (induction ds) (auto simp: d3_ascending_def)

lemma sort_insert_desc:
  "sort_insert (\<lambda>a b. d3_descending (streams a) (streams b)) d ds = insort_key (\<lambda>d. - streams d) d ds"
  by (induction ds) (auto simp: d3_descending_def)

lemma array_sort_asc:
  "array_sort (\<lambda>a b. d3_ascending (streams a) (streams b)) ds = sort_key streams ds"
  by (induction ds) (simp_all add: sort_insert_asc)

lemma array_sort_desc:
  "array_sort (\<lambda>a b. d3_descending (streams a) (streams b)) ds = sort_key (\<lambda>d. - streams d) ds"
  by (induction ds) (simp_all add: sort_insert_desc)

lemma sorted_neg:
  fixes f :: "'a \<Rightarrow> rat"
  shows "sorted (map (\<lambda>d. - f d) ds) = sorted_wrt (\<ge>) (map f ds)"
  by (induction ds) auto

lemma dataB_sortBars:
  "dataB (sortBars c) =
     (if sortedAscending c then sort_key (\<lambda>d. - streams d) (dataB c) else sort_key streams (dataB c))"
  by (simp add: sortBars_def Let_def array_sort_asc array_sort_desc)

lemma ordinal_domain_fold:
  "distinct (acc @ vs) \<Longrightarrow>
   foldl (\<lambda>dom v. if v \<in> set dom then dom else dom @ [v]) acc vs = acc @ vs"
  by (induction vs arbitrary: acc) auto

lemma ordinal_domain_distinct: "distinct vs \<Longrightarrow> ordinal_domain vs = vs"
  using ordinal_domain_fold [of "[]" vs] by (simp add: ordinal_domain_def)

lemma sort_sort_neg:
  fixes f :: "'a \<Rightarrow> rat"
  shows "sort_key f (sort_key (\<lambda>d. - f d) ds) = sort_key f ds"
proof (rule properties_for_sort_key)
  show "mset (sort_key f ds) = mset (sort_key (\<lambda>d. - f d) ds)" by simp
  show "sorted (map f (sort_key f ds))" by simp
  fix k assume "k \<in> set (sort_key f ds)"
  have "filter (\<lambda>x. f k = f x) (sort_key (\<lambda>d. - f d) ds) = filter (\<lambda>x. - f x = - f k) (sort_key (\<lambda>d. - f d) ds)"
    by (rule filter_cong) auto
  also have "\<dots> = filter (\<lambda>x. - f x = - f k) ds" by (rule sort_key_stable)
  also have "\<dots> = filter (\<lambda>x. f x = f k) ds" by (rule filter_cong) auto
  also have "\<dots> = filter (\<lambda>x. f x = f k) (sort_key f ds)" by (rule sort_key_stable [symmetric])
  also have "\<dots> = filter (\<lambda>x. f k = f x) (sort_key f ds)" by (rule filter_cong) auto
  finally show "filter (\<lambda>x. f k = f x) (sort_key f ds) = filter (\<lambda>x. f k = f x) (sort_key (\<lambda>d. - f d) ds)"
    by simp
qed

lemma sort_neg_sort:
  fixes f :: "'a \<Rightarrow> rat"
  shows "sort_key (\<lambda>d. - f d) (sort_key f ds) = sort_key (\<lambda>d. - f d) ds"
  using sort_sort_neg [of "\<lambda>d. - f d" ds] by simp

lemma sortBars_twice_data:
  "dataB (sortBars (sortBars c)) =
     (if sortedAscending c then sort_key streams (dataB c) else sort_key (\<lambda>d. - streams d) (dataB c))"
  by (simp add: dataB_sortBars sort_sort_neg sort_neg_sort) (simp add: sortBars_def Let_def)

lemma sort_key_fix: "sort_key f ds = ds \<longleftrightarrow> sorted (map f ds)"
  by (metis sorted_sort_key sort_key_id_if_sorted)

lemma sortBars_stable:
  "filter (\<lambda>d. streams d = s) (dataB (sortBars c)) = filter (\<lambda>d. streams d = s) (dataB c)"
proof (cases "sortedAscending c")
  case True
  have "filter (\<lambda>d. streams d = s) (sort_key (\<lambda>d. - streams d) (dataB c))
      = filter (\<lambda>d. - streams d = - s) (sort_key (\<lambda>d. - streams d) (dataB c))"
    by (rule filter_cong) auto
  also have "\<dots> = filter (\<lambda>d. - streams d = - s) (dataB c)" by (rule sort_key_stable)
  also have "\<dots> = filter (\<lambda>d. streams d = s) (dataB c)" by (rule filter_cong) auto
  finally show ?thesis using True by (simp add: dataB_sortBars)
next
  case False
  then show ?thesis by (simp add: dataB_sortBars sort_key_stable)
qed

text \<open>
  Claim C2, as stated, has two clicks on the sort toggle return every artist array to
  its original order. The first click sorts the array descending and the second
  ascending: the array \<open>A: 1, B: 3, C: 2\<close> ends as \<open>A: 1, C: 2, B: 3\<close>.
\<close>

theorem sort_twice_counterexample:
  "dataB (sortBars (sortBars (createTopArtistChart artists3))) \<noteq> dataB (createTopArtistChart artists3)"
  by (simp add: sortBars_def createTopArtistChart_def Let_def artists3_def d3_ascending_def
      d3_descending_def)

text \<open>
  Claim C2, amended: for every artist array a single toggle flips the direction and
  sorts the array in place by the streams field in the new direction, a permutation in
  which the entries of equal streams keep their relative order; after each toggle the
  domain of the band scale is \<open>data.map(d => d.artist)\<close> in the new order (artists being
  unique keys; the scale keeps the first of equal names). Two toggles restore the
  direction and leave the array stably sorted in that direction: that is the original
  order exactly when the original array was already sorted in the direction of the
  flag.
\<close>

theorem sort_toggle:
  "sortedAscending (sortBars c) = (\<not> sortedAscending c)
   \<and> mset (dataB (sortBars c)) = mset (dataB c)
   \<and> sorted_dir (sortedAscending (sortBars c)) (map streams (dataB (sortBars c)))
   \<and> filter (\<lambda>d. streams d = s) (dataB (sortBars c)) = filter (\<lambda>d. streams d = s) (dataB c)
   \<and> band_domain (yB (sortBars c)) = ordinal_domain (map artist (dataB (sortBars c)))
   \<and> (distinct (map artist (dataB c)) \<longrightarrow> band_domain (yB (sortBars c)) = map artist (dataB (sortBars c)))
   \<and> sortedAscending (sortBars (sortBars c)) = sortedAscending c
   \<and> mset (dataB (sortBars (sortBars c))) = mset (dataB c)
   \<and> sorted_dir (sortedAscending c) (map streams (dataB (sortBars (sortBars c))))
   \<and> filter (\<lambda>d. streams d = s) (dataB (sortBars (sortBars c))) = filter (\<lambda>d. streams d = s) (dataB c)
   \<and> (dataB (sortBars (sortBars c)) = dataB c \<longleftrightarrow> sorted_dir (sortedAscending c) (map streams (dataB c)))"
proof -
  have 1: "sortedAscending (sortBars c) = (\<not> sortedAscending c)"
    by (simp add: sortBars_def Let_def)
  have 2: "mset (dataB (sortBars c)) = mset (dataB c)"
    by (simp add: dataB_sortBars)
  have 3: "sorted_dir (sortedAscending (sortBars c)) (map streams (dataB (sortBars c)))"
    using sorted_neg [of streams "sort_key (\<lambda>d. - streams d) (dataB c)"]
    by (simp add: 1 dataB_sortBars sorted_dir_def)
  note 4 = sortBars_stable
  have 5: "band_domain (yB (sortBars c)) = ordinal_domain (map artist (dataB (sortBars c)))"
    by (simp add: sortBars_def Let_def)
  have 6: "distinct (map artist (dataB c)) \<longrightarrow> band_domain (yB (sortBars c)) = map artist (dataB (sortBars c))"
  proof
    assume "distinct (map artist (dataB c))"
    then have "distinct (map artist (dataB (sortBars c)))"
      using 2 by (metis distinct_map mset_eq_setD mset_eq_imp_distinct_iff)
    then show "band_domain (yB (sortBars c)) = map artist (dataB (sortBars c))"
      using 5 by (simp add: ordinal_domain_distinct)
  qed
  have 7: "sortedAscending (sortBars (sortBars c)) = sortedAscending c"
    by (simp add: sortBars_def Let_def)
  have 8: "mset (dataB (sortBars (sortBars c))) = mset (dataB c)"
    by (simp add: sortBars_twice_data)
  have 9: "sorted_dir (sortedAscending c) (map streams (dataB (sortBars (sortBars c))))"
    using sorted_neg [of streams "sort_key (\<lambda>d. - streams d) (dataB c)"]
    by (simp add: sortBars_twice_data sorted_dir_def)
  have 10: "filter (\<lambda>d. streams d = s) (dataB (sortBars (sortBars c))) = filter (\<lambda>d. streams d = s) (dataB c)"
    by (simp add: sortBars_stable)
  have 11: "dataB (sortBars (sortBars c)) = dataB c \<longleftrightarrow> sorted_dir (sortedAscending c) (map streams (dataB c))"
    using sorted_neg [of streams "dataB c"]
    by (simp add: sortBars_twice_data sorted_dir_def sort_key_fix)
  show ?thesis using 1 2 3 4 5 6 7 8 9 10 11 by blast
qed

theorem sort_toggle_witness:
  "distinct (map artist (dataB (createTopArtistChart artists3)))
   \<and> map artist (dataB (sortBars (createTopArtistChart artists3))) = [''B'', ''C'', ''A'']
   \<and> band_domain (yB (sortBars (createTopArtistChart artists3))) = [''B'', ''C'', ''A'']
   \<and> map artist (dataB (sortBars (sortBars (createTopArtistChart artists3)))) = [''A'', ''C'', ''B'']"
  using sort_toggle [of "createTopArtistChart artists3" 1]
  by (simp add: sortBars_def createTopArtistChart_def Let_def artists3_def d3_ascending_def
      d3_descending_def ordinal_domain_def)

section \<open>The tooltips\<close>

lemma mouseoverS_lengths [simp]:
  "length (circles (mouseoverS loc i ev c)) = length (circles c)"
  "length (dataS (mouseoverS loc i ev c)) = length (dataS c)"
  by (simp_all add: mouseoverS_def Let_def)

lemma mouseoutS_lengths [simp]:
  "length (circles (mouseoutS i c)) = length (circles c)"
  "length (dataS (mouseoutS i c)) = length (dataS c)"
  by (simp_all add: mouseoutS_def)

lemma mouseoverP_lengths [simp]:
  "length (barsP (mouseoverP loc i ev c)) = length (barsP c)"
  "length (dataP (mouseoverP loc i ev c)) = length (dataP c)"
  by (simp_all add: mouseoverP_def Let_def)

lemma mouseoutP_lengths [simp]:
  "length (barsP (mouseoutP i c)) = length (barsP c)"
  "length (dataP (mouseoutP i c)) = length (dataP c)"
  by (simp_all add: mouseoutP_def)






section \<open>Loading the dashboard\<close>

lemma catch_error_props:
  "snd (catch_error p) = False" "rendered (fst (catch_error p)) = rendered p"
  "errors_logged (fst (catch_error p)) = errors_logged p + 1"
  by (simp_all add: catch_error_def console_error_def rendered_def errors_logged_def)

lemma console_log_props:
  "rendered (console_log s p) = rendered p" "errors_logged (console_log s p) = errors_logged p"
  by (simp_all add: console_log_def rendered_def errors_logged_def)

lemma integrate_finish_failed:
  assumes "load_failed fs"
  shows "snd (integrate_finish fs p) = False
    \<and> rendered (fst (integrate_finish fs p)) = rendered p
    \<and> errors_logged (fst (integrate_finish fs p)) = errors_logged p + 1"
proof -
  obtain t a pl where fs: "fs = (t, a, pl)" by (cases fs) auto
  show ?thesis
    using assms unfolding fs load_failed_def integrate_finish_def
    by (cases t; cases a; cases pl)
       (auto simp: catch_error_props console_log_props Let_def split: option.splits sum.splits)
qed


lemma set_innerHTML_props:
  "errors_logged (set_innerHTML p) = errors_logged p"
  "rendered (set_innerHTML (console_log s p)) = rendered (set_innerHTML p)"
  by (simp_all add: set_innerHTML_def errors_logged_def console_log_def rendered_def)

lemma console_error_props:
  "rendered (console_error s p) = rendered p" "errors_logged (console_error s p) = errors_logged p + 1"
  by (simp_all add: console_error_def rendered_def errors_logged_def)

text \<open>
  Claim C5, as stated, aborts the render batch when a request returns a response that
  is not OK. The \<open>ok\<close> flag is never read: when the platform endpoint answers with an
  error status and the body \<open>{"detail": "Not Found"}\<close>, its key is taken for a
  platform, all three charts are rendered and no error is logged.
\<close>

theorem not_ok_response_counterexample:
  "initializeDashboard ''dashboard'' fetches_not_ok page0 =
     (\<lparr>element_ids = [''dashboard''], scatterPlot = Some [1],
       controlsS = Some [''Reset Zoom'', ''Update Data''],
       topArtists = Some [1], controlsB = Some [''Sort''],
       platformComparison = Some [1], controlsP = Some [''Total'', ''Median'', ''Average''],
       body_tooltips = 2,
       console = [Log ''Initializing dashboard in containerId: #dashboard'',
         Log ''Initializing dashboard visualizations...'', Log ''Fetched all visualization data:'']\<rparr>, True)"
  by (simp add: fetches_not_ok_def page0_def initializeDashboard_def Let_def
      console_log_def console_error_def integrateVisualizations_def integrate_start_def
      integrate_finish_def catch_error_def set_innerHTML_def tracks_json_def artists_json_def
      error_json_def has_null_def platformData_def create_all_def createScatterPlot_dom_def
      createTopArtistChart_dom_def createPlatformComparison_dom_def append_svg_def)

text \<open>
  Claim C5, amended: no chart is constructed before all three requests have settled.
  If any of the three requests is rejected, or a body is not JSON, or a payload does not
  have the shape its decoding reads, the whole batch is aborted: no chart is rendered,
  \<open>integrateVisualizations\<close> logs exactly one error and returns no controller, and
  what was rendered before the call is untouched (on a refresh, the previous charts;
  on initialization, the cards that \<open>initializeDashboard\<close> has just emptied, and there
  a second error is logged before \<open>null\<close> is returned). The status of a response is
  not consulted: the outcome is the same whatever the \<open>ok\<close> flags are.
\<close>

theorem fetch_failure_aborts:
  assumes "load_failed fs"
  shows "rendered (integrate_start p) = rendered p
    \<and> snd (integrateVisualizations fs p) = False
    \<and> rendered (fst (integrateVisualizations fs p)) = rendered p
    \<and> errors_logged (fst (integrateVisualizations fs p)) = errors_logged p + 1
    \<and> rendered (refresh_settled fs p) = rendered p
    \<and> errors_logged (refresh_settled fs p) = errors_logged p + 1
    \<and> (containerId \<in> set (element_ids p) \<longrightarrow>
         snd (initializeDashboard containerId fs p) = False
       \<and> rendered (fst (initializeDashboard containerId fs p)) = rendered (set_innerHTML p)
       \<and> errors_logged (fst (initializeDashboard containerId fs p)) = errors_logged p + 2)
    \<and> integrate_finish (Responded ok1 b1, Responded ok2 b2, Responded ok3 b3) p
        = integrate_finish (Responded True b1, Responded True b2, Responded True b3) p"
proof -
  note f = integrate_finish_failed [OF assms]
  have 1: "snd (integrateVisualizations fs p) = False
    \<and> rendered (fst (integrateVisualizations fs p)) = rendered p
    \<and> errors_logged (fst (integrateVisualizations fs p)) = errors_logged p + 1"
    using f [of "integrate_start p"]
    by (simp add: integrateVisualizations_def integrate_start_def console_log_props)
  have 2: "rendered (refresh_settled fs p) = rendered p
    \<and> errors_logged (refresh_settled fs p) = errors_logged p + 1"
    using f [of "refresh p"]
    by (simp add: refresh_settled_def refresh_def integrate_start_def console_log_props)
  have 3: "containerId \<in> set (element_ids p) \<longrightarrow>
         snd (initializeDashboard containerId fs p) = False
       \<and> rendered (fst (initializeDashboard containerId fs p)) = rendered (set_innerHTML p)
       \<and> errors_logged (fst (initializeDashboard containerId fs p)) = errors_logged p + 2"
  proof
    assume c: "containerId \<in> set (element_ids p)"
    let ?p0 = "console_log (''Initializing dashboard in containerId: #'' @ containerId) p"
    let ?r = "integrateVisualizations fs (set_innerHTML ?p0)"
    have r: "snd ?r = False" "rendered (fst ?r) = rendered (set_innerHTML p)"
      "errors_logged (fst ?r) = errors_logged p + 1"
      using f [of "integrate_start (set_innerHTML ?p0)"]
      by (simp_all add: integrateVisualizations_def integrate_start_def console_log_props
          set_innerHTML_props)
    have i: "initializeDashboard containerId fs p =
        (console_error ''Failed to initialize visualizations.'' (fst ?r), False)"
      using c r(1) by (cases ?r) (simp add: initializeDashboard_def Let_def console_log_def)
    show "snd (initializeDashboard containerId fs p) = False
       \<and> rendered (fst (initializeDashboard containerId fs p)) = rendered (set_innerHTML p)
       \<and> errors_logged (fst (initializeDashboard containerId fs p)) = errors_logged p + 2"
      unfolding i using r by (simp add: console_error_props)
  qed
  have 4: "integrate_finish (Responded ok1 b1, Responded ok2 b2, Responded ok3 b3) p
        = integrate_finish (Responded True b1, Responded True b2, Responded True b3) p"
    by (simp add: integrate_finish_def)
  have 0: "rendered (integrate_start p) = rendered p"
    by (simp add: integrate_start_def console_log_props)
  show ?thesis using 0 1 2 3 4 by blast
qed

theorem fetch_failure_aborts_witness:
  "load_failed fetches_rejected
   \<and> initializeDashboard ''dashboard'' fetches_rejected page0 =
      (set_innerHTML page0\<lparr>console := [Log ''Initializing dashboard in containerId: #dashboard'',
         Log ''Initializing dashboard visualizations...'', Error ''Error loading visualization data:'',
         Error ''Failed to initialize visualizations.'']\<rparr>, False)"
  using fetch_failure_aborts [of fetches_rejected page0 "''dashboard''"]
  by (simp add: fetches_rejected_def load_failed_def page0_def initializeDashboard_def Let_def
      console_log_def console_error_def integrateVisualizations_def integrate_start_def
      integrate_finish_def catch_error_def set_innerHTML_def)

section \<open>Refreshing the dashboard\<close>

text \<open>
  Claim C7 at a successful load followed by a successful refresh: when the promise of
  \<open>refresh\<close> resolves nothing on the screen has changed, and once the new requests have
  settled every card holds two svgs, every controls region its buttons twice, and the
  body four tooltips: the new charts are appended after the old ones, which stay.
\<close>

theorem refresh_appends_charts:
  "scatterPlot (fst (initializeDashboard ''dashboard'' fetches_ok page0)) = Some [1]
   \<and> rendered (refresh (fst (initializeDashboard ''dashboard'' fetches_ok page0)))
       = rendered (fst (initializeDashboard ''dashboard'' fetches_ok page0))
   \<and> rendered (refresh_settled fetches_ok (fst (initializeDashboard ''dashboard'' fetches_ok page0)))
       = \<lparr>element_ids = [''dashboard''], scatterPlot = Some [1, 1],
           controlsS = Some [''Reset Zoom'', ''Update Data'', ''Reset Zoom'', ''Update Data''],
           topArtists = Some [1, 1], controlsB = Some [''Sort'', ''Sort''],
           platformComparison = Some [1, 1],
           controlsP = Some [''Total'', ''Median'', ''Average'', ''Total'', ''Median'', ''Average''],
           body_tooltips = 4, console = []\<rparr>"
  by (simp add: fetches_ok_def page0_def initializeDashboard_def Let_def
      console_log_def console_error_def integrateVisualizations_def integrate_start_def
      integrate_finish_def catch_error_def set_innerHTML_def tracks_json_def artists_json_def
      platforms_json_def has_null_def platformData_def create_all_def createScatterPlot_dom_def
      createTopArtistChart_dom_def createPlatformComparison_dom_def append_svg_def
      refresh_def refresh_settled_def rendered_def)

section \<open>The tick format\<close>

lemma digit_char_zero: "0 \<le> d \<Longrightarrow> d < 10 \<Longrightarrow> digit_char d = CHR ''0'' \<longleftrightarrow> d = 0"
proof
  assume d: "0 \<le> d" "d < 10" and "digit_char d = CHR ''0''"
  then have "(of_char (char_of (48 + d)) :: int) = of_char CHR ''0''"
    by (simp add: digit_char_def)
  then show "d = 0" using d by simp
next
  assume "d = 0"
  then show "digit_char d = CHR ''0''" by (simp add: digit_char_def) code_simp
qed

lemma digits_small: "n < 10 \<Longrightarrow> digits n = [digit_char n]"
  by (subst digits.simps) simp

lemma digits_large: "10 \<le> n \<Longrightarrow> digits n = digits (n div 10) @ [digit_char (n mod 10)]"
  by (subst digits.simps) simp

lemma digits_nonempty: "digits n \<noteq> []"
  by (subst digits.simps) simp

lemma digits_0: "digits 0 = ''0''"
  by (simp add: digits_small digit_char_def) code_simp

lemma digits_split: "0 \<le> n \<Longrightarrow>
  (if length (digits n) \<le> 1 then replicate (2 - length (digits n)) CHR ''0'' @ digits n else digits n)
   = (if n < 10 then ''0'' else digits (n div 10)) @ [digit_char (n mod 10)]"
proof (cases "n < 10")
  case True
  assume "0 \<le> n"
  with True show ?thesis by (simp add: digits_small)
next
  case False
  then have "digits n = digits (n div 10) @ [digit_char (n mod 10)]" by (simp add: digits_large)
  moreover have "digits (n div 10) \<noteq> []" by (rule digits_nonempty)
  ultimately show ?thesis using False by (cases "digits (n div 10)") simp_all
qed

lemma toFixed1_eq:
  assumes "0 \<le> x" "x < 10 ^ 21"
  shows "toFixed1 x = digits (\<lfloor>x * 10 + 1 / 2\<rfloor> div 10) @ ''.'' @ [digit_char (\<lfloor>x * 10 + 1 / 2\<rfloor> mod 10)]"
proof -
  define n where "n = \<lfloor>x * 10 + 1 / 2\<rfloor>"
  have n: "0 \<le> n" using assms(1) by (simp add: n_def)
  define m1 where "m1 = (if length (digits n) \<le> 1 then replicate (2 - length (digits n)) CHR ''0'' @ digits n else digits n)"
  have m1: "m1 = (if n < 10 then ''0'' else digits (n div 10)) @ [digit_char (n mod 10)]"
    unfolding m1_def using n by (rule digits_split)
  have d: "(if n < 10 then ''0'' else digits (n div 10)) = digits (n div 10)"
    using n by (simp add: digits_0)
  have "toFixed1 x = take (length m1 - 1) m1 @ ''.'' @ drop (length m1 - 1) m1"
    using assms by (simp add: toFixed1_def Let_def n_def m1_def)
  also have "\<dots> = digits (n div 10) @ ''.'' @ [digit_char (n mod 10)]"
    by (simp add: m1 d)
  finally show ?thesis by (simp add: n_def)
qed

lemma replace_dot_zero_eq:
  "replace_dot_zero (a @ ''.'' @ [c]) = (if c = CHR ''0'' then a else a @ ''.'' @ [c])"
  by (simp add: replace_dot_zero_def)

lemma one_decimal_eq:
  assumes "0 \<le> x" "x < 10 ^ 21"
  shows "replace_dot_zero (toFixed1 x) = one_decimal x"
proof -
  define n where "n = \<lfloor>x * 10 + 1 / 2\<rfloor>"
  have r: "0 \<le> n mod 10" "n mod 10 < 10" by simp_all
  show ?thesis
    unfolding toFixed1_eq [OF assms] replace_dot_zero_eq one_decimal_def Let_def n_def [symmetric]
    using digit_char_zero [OF r] digits_small [OF r(2)] by simp
qed

lemma count_digits_pos: "0 < a \<Longrightarrow> 1 < b \<Longrightarrow> 1 \<le> count_digits b a"
proof (induction b a rule: count_digits.induct)
  case (1 b a)
  show ?case
  proof (cases "0 < a div b")
    case True
    then show ?thesis using 1 by (subst count_digits.simps) simp
  next
    case False
    then have "count_digits b (a div b) = 0" by (subst count_digits.simps) simp
    then show ?thesis using 1(2,3) by (subst count_digits.simps) simp
  qed
qed

lemma count_digits_bounds:
  "0 < a \<Longrightarrow> 1 < b \<Longrightarrow> b ^ nat (count_digits b a - 1) \<le> a \<and> a < b ^ nat (count_digits b a)"
proof (induction b a rule: count_digits.induct)
  case (1 b a)
  define d where "d = count_digits b (a div b)"
  have c: "count_digits b a = d + 1"
    unfolding d_def using 1(2,3) by (subst count_digits.simps) simp
  have "a = a div b * b + a mod b" by simp
  moreover have "0 \<le> a mod b" "a mod b < b" using 1(3) by simp_all
  moreover have "(a div b + 1) * b = a div b * b + b" by (simp add: algebra_simps)
  ultimately have ab: "a div b * b \<le> a" "a < (a div b + 1) * b"
    by linarith+
  show ?case
  proof (cases "0 < a div b")
    case True
    note ih0 = 1(1) [OF conjI [OF 1(2) 1(3)] True 1(3)]
    have ih: "b ^ nat (d - 1) \<le> a div b" "a div b < b ^ nat d"
      unfolding d_def using ih0 by blast+
    have p: "1 \<le> d" unfolding d_def using True 1(3) by (rule count_digits_pos)
    then have e: "nat d = Suc (nat (d - 1))" by simp
    have "b ^ nat d = b ^ nat (d - 1) * b"
      by (subst e) simp
    also have "\<dots> \<le> a div b * b" using ih(1) 1(3) by (simp add: mult_right_mono)
    finally have lo: "b ^ nat d \<le> a" using ab(1) by simp
    have "a div b + 1 \<le> b ^ nat d" using ih(2) by simp
    then have "(a div b + 1) * b \<le> b ^ nat d * b"
      using 1(3) by (simp add: mult_right_mono)
    moreover have "b ^ nat (d + 1) = b ^ nat d * b"
      using p by (simp add: nat_add_distrib)
    ultimately have hi: "a < b ^ nat (d + 1)"
      using ab(2) by linarith
    show ?thesis using lo hi by (simp add: c)
  next
    case False
    then have z: "d = 0" unfolding d_def by (subst count_digits.simps) simp
    have "a div b \<le> 0" using False by simp
    then have "(a div b + 1) * b \<le> 1 * b"
      using 1(3) by (intro mult_right_mono) simp_all
    then have "a < b" using ab(2) by simp
    then show ?thesis using 1(2) by (simp add: c z)
  qed
qed

lemma pow_int_pos: "0 < b \<Longrightarrow> 0 < pow_int b k"
  by (simp add: pow_int_def)

lemma round_half_even_bounds: "of_int (round_half_even m) \<le> m + 1" "0 \<le> m \<Longrightarrow> 0 \<le> round_half_even m"
proof -
  have "of_int \<lfloor>m\<rfloor> \<le> m + 1"
    by (rule order_trans [OF of_int_floor_le]) simp
  then show "of_int (round_half_even m) \<le> m + 1"
    by (simp add: round_half_even_def Let_def)
  assume "0 \<le> m"
  then have "0 \<le> \<lfloor>m\<rfloor>" by simp
  then show "0 \<le> round_half_even m"
    by (simp add: round_half_even_def Let_def)
qed

lemma ilog2_ge1:
  assumes "1 \<le> q"
  shows "0 \<le> ilog 2 q" "of_int 2 ^ nat (ilog 2 q) \<le> q"
proof -
  have f: "0 < \<lfloor>q\<rfloor>" using assms by simp
  from count_digits_pos [OF f, of 2] show "0 \<le> ilog 2 q"
    using assms by (simp add: ilog_def)
  from count_digits_bounds [OF f, of 2]
  have "(2::int) ^ nat (count_digits 2 \<lfloor>q\<rfloor> - 1) \<le> \<lfloor>q\<rfloor>" by simp
  then have "of_int ((2::int) ^ nat (count_digits 2 \<lfloor>q\<rfloor> - 1)) \<le> (of_int \<lfloor>q\<rfloor> :: rat)"
    by (simp only: of_int_le_iff)
  also have "\<dots> \<le> q" by simp
  finally show "of_int 2 ^ nat (ilog 2 q) \<le> q"
    using assms by (simp add: ilog_def)
qed

lemma fl64_bounds:
  assumes "1 \<le> q"
  shows "0 \<le> fl64 q" "fl64 q \<le> 2 * q"
proof -
  define e where "e = ilog 2 q"
  define ulp where "ulp = pow_int 2 (e - 52)"
  have e: "0 \<le> e" "of_int 2 ^ nat e \<le> q" unfolding e_def using ilog2_ge1 [OF assms] by simp_all
  have ulp: "0 < ulp" unfolding ulp_def by (simp add: pow_int_pos)
  have fl: "fl64 q = of_int (round_half_even (q / ulp)) * ulp"
    using assms e(1) by (simp add: fl64_def Let_def ulp_def e_def max_def)
  have m: "0 \<le> q / ulp" using assms ulp by simp
  show "0 \<le> fl64 q"
    unfolding fl using round_half_even_bounds(2) [OF m] ulp by simp
  have "ulp \<le> of_int 2 ^ nat e"
  proof (cases "52 \<le> e")
    case True
    then have "nat (e - 52) \<le> nat e" by simp
    then have "(2::rat) ^ nat (e - 52) \<le> 2 ^ nat e" by (intro power_increasing) simp_all
    then show ?thesis using True by (simp add: ulp_def pow_int_def)
  next
    case False
    then have "ulp = 1 / 2 ^ nat (52 - e)" by (simp add: ulp_def pow_int_def)
    also have "\<dots> \<le> 1" by simp
    also have "\<dots> \<le> (2::rat) ^ nat e" by simp
    finally show ?thesis by simp
  qed
  then have uq: "ulp \<le> q" using e(2) by simp
  have "fl64 q \<le> (q / ulp + 1) * ulp"
    unfolding fl using round_half_even_bounds(1) [of "q / ulp"] ulp by (simp add: mult_right_mono)
  also have "\<dots> = q + ulp" using ulp by (simp add: algebra_simps)
  also have "\<dots> \<le> 2 * q" using uq by simp
  finally show "fl64 q \<le> 2 * q" .
qed

lemma customFormat_branch:
  assumes "c \<le> v" "v < c * 10 ^ 20" "0 < c"
  shows "replace_dot_zero (toFixed1 (js_div v c)) = one_decimal (js_div v c)"
proof -
  have q: "1 \<le> v / c" "v / c < 10 ^ 20"
    using assms by (simp_all add: pos_le_divide_eq pos_divide_less_eq mult.commute)
  from fl64_bounds [OF q(1)] q(2) have "0 \<le> js_div v c" "js_div v c < 10 ^ 21"
    by (simp_all add: js_div_def)
  then show ?thesis by (rule one_decimal_eq)
qed

lemma round_half_even_of_int: "round_half_even (of_int n) = n"
  by (simp add: round_half_even_def Let_def)

lemma fl64_of_int:
  assumes "0 \<le> m" "m < 2 ^ 53"
  shows "fl64 (of_int m) = of_int m"
proof (cases "m = 0")
  case True
  then show ?thesis by (simp add: fl64_def)
next
  case False
  then have m: "0 < m" using assms(1) by simp
  define c where "c = count_digits 2 m"
  have c1: "1 \<le> c" unfolding c_def using m by (rule count_digits_pos) simp
  have "(2::int) ^ nat (c - 1) \<le> m" unfolding c_def using count_digits_bounds [OF m, of 2] by simp
  then have "(2::int) ^ nat (c - 1) < 2 ^ 53" using assms(2) by simp
  from power_less_imp_less_exp [OF _ this] have "nat (c - 1) < 53" by simp
  then have c2: "c \<le> 53" by simp
  have a: "\<bar>rat_of_int m\<bar> = rat_of_int m" "sgn (rat_of_int m) = 1" "rat_of_int m \<noteq> 0"
    using m by simp_all
  have e: "ilog 2 (rat_of_int m) = c - 1"
    using m by (simp add: ilog_def c_def)
  define k where "k = nat (53 - c)"
  have ulp: "pow_int 2 (max (c - 1) (- 1022) - 52) = 1 / 2 ^ k"
    using c1 c2 by (auto simp: pow_int_def k_def max_def intro!: arg_cong [where f = "\<lambda>n. (2::rat) ^ n"])
  have q: "rat_of_int m / (1 / 2 ^ k) = of_int (m * 2 ^ k)"
    by simp
  have "fl64 (rat_of_int m) = of_int (round_half_even (rat_of_int m / (1 / 2 ^ k))) * (1 / 2 ^ k)"
    unfolding fl64_def Let_def a e ulp using a(3) by simp
  also have "\<dots> = rat_of_int m"
    unfolding q round_half_even_of_int by simp
  finally show ?thesis .
qed

lemma floor_div_pow10: "\<lfloor>rat_of_int j / pow_int 10 (int e)\<rfloor> = j div 10 ^ e"
proof -
  have "rat_of_int j / pow_int 10 (int e) = rat_of_int j / rat_of_int (10 ^ e)"
    by (simp add: pow_int_def)
  then show ?thesis by (simp only: floor_divide_of_int_eq)
qed

lemma pow_int_nat: "pow_int 10 (int e) = rat_of_int (10 ^ e)"
  by (simp add: pow_int_def)

lemma shortest_of_int:
  assumes "0 < j" "2 * j < 2 ^ 53"
  shows "n0 - int k = int e \<Longrightarrow> e < fuel \<Longrightarrow> 10 ^ e \<le> j \<Longrightarrow>
    \<exists>s e'. shortest (of_int j) n0 k fuel = (s, int e') \<and> 0 < s \<and> s * 10 ^ e' = j"
proof (induction e arbitrary: k fuel)
  case 0
  then obtain f where f: "fuel = Suc f" by (cases fuel) auto
  have lo: "fl64 (rat_of_int j) = rat_of_int j"
    using assms by (intro fl64_of_int) simp_all
  have "fl64 (rat_of_int (j + 1)) = rat_of_int (j + 1)"
    using assms by (intro fl64_of_int) simp_all
  then have hi: "fl64 (rat_of_int j + 1) \<noteq> rat_of_int j" by simp
  have "shortest (of_int j) n0 k fuel = (j, 0)"
    using 0(1) lo hi unfolding f by (simp add: Let_def pow_int_def)
  then show ?case using assms(1) by (intro exI [of _ j] exI [of _ 0]) simp
next
  case (Suc e)
  then obtain f where f: "fuel = Suc f" by (cases fuel) auto
  define p :: int where "p = 10 ^ Suc e"
  define lo where "lo = j div p"
  have p: "0 < p" by (simp add: p_def)
  have jm: "j = lo * p + j mod p" by (simp add: lo_def)
  have md: "0 \<le> j mod p" "j mod p < p" using p by simp_all
  have lo0: "0 < lo" using Suc(4) p unfolding lo_def p_def
    by (simp add: pos_imp_zdiv_pos_iff)
  have lop: "lo * p \<le> j" using jm md by linarith
  have "(lo + 1) * p = lo * p + p" by (simp add: algebra_simps)
  then have hip: "j < (lo + 1) * p" "(lo + 1) * p \<le> 2 * j"
    using jm md Suc(4) unfolding p_def [symmetric] by linarith+
  have e: "n0 - int k = int (Suc e)" by (rule Suc(2))
  have fl: "\<lfloor>rat_of_int j / pow_int 10 (int (Suc e))\<rfloor> = lo"
    unfolding lo_def p_def by (rule floor_div_pow10)
  have pw: "pow_int 10 (int (Suc e)) = rat_of_int p"
    unfolding p_def by (rule pow_int_nat)
  have fl': "\<lfloor>rat_of_int j / rat_of_int p\<rfloor> = lo"
    unfolding lo_def by (rule floor_divide_of_int_eq)
  have flo: "fl64 (rat_of_int (lo * p)) = rat_of_int (lo * p)"
    using lop lo0 p assms by (intro fl64_of_int) simp_all
  have fhi: "fl64 (rat_of_int ((lo + 1) * p)) = rat_of_int ((lo + 1) * p)"
    using hip lo0 p assms by (intro fl64_of_int) simp_all
  have rhi: "fl64 (rat_of_int (lo + 1) * rat_of_int p) \<noteq> rat_of_int j"
    using fhi hip(1) by (simp only: of_int_mult [symmetric] of_int_eq_iff)
  have rlo: "fl64 (rat_of_int lo * rat_of_int p) = rat_of_int j \<longleftrightarrow> lo * p = j"
    using flo by (simp only: of_int_mult [symmetric] of_int_eq_iff)
  have step: "shortest (of_int j) n0 k fuel =
      (if lo * p = j then (lo, int (Suc e)) else shortest (of_int j) n0 (Suc k) f)"
    unfolding f by (simp only: shortest.simps Let_def e fl fl' pw rlo rhi if_False simp_thms)
  show ?case
  proof (cases "lo * p = j")
    case True
    then show ?thesis unfolding step using lo0
      by (intro exI [of _ lo] exI [of _ "Suc e"]) (simp add: p_def)
  next
    case False
    have "n0 - int (Suc k) = int e" using e by simp
    moreover have "e < f" using Suc(3) f by simp
    moreover have "(10::int) ^ e \<le> j" using Suc(4)
      by (meson order_trans power_increasing le_SucI order_refl one_le_numeral)
    ultimately show ?thesis unfolding step using False Suc.IH by simp
  qed
qed

lemma digit_char_0: "digit_char 0 = CHR ''0''"
  using digit_char_zero [of 0] by simp

lemma digits_times_10:
  assumes "0 < s"
  shows "digits (s * 10 ^ e) = digits s @ replicate e CHR ''0''"
proof (induction e)
  case 0
  then show ?case by simp
next
  case (Suc e)
  have "0 < s * 10 ^ e" using assms by simp
  then have "10 \<le> s * 10 ^ e * 10" by simp
  from digits_large [OF this] have "digits (s * 10 ^ e * 10) = digits (s * 10 ^ e) @ ''0''"
    by (simp add: digit_char_0)
  moreover have "s * 10 ^ Suc e = s * 10 ^ e * 10" by simp
  ultimately have "digits (s * 10 ^ Suc e) = digits (s * 10 ^ e) @ ''0''" by (simp only:)
  then show ?case by (simp only: Suc replicate_Suc append_assoc replicate_append_same [symmetric])
qed

lemma length_digits:
  "0 \<le> n \<Longrightarrow> n < 10 ^ Suc m \<Longrightarrow> length (digits n) \<le> Suc m"
proof (induction m arbitrary: n)
  case 0
  then show ?case by (simp add: digits_small)
next
  case (Suc m)
  show ?case
  proof (cases "n < 10")
    case True
    then show ?thesis by (simp add: digits_small)
  next
    case False
    have "n div 10 * 10 \<le> n" by simp
    moreover have "n < 10 * 10 ^ Suc m" using Suc(3) by simp
    ultimately have "n div 10 < 10 ^ Suc m" by linarith
    moreover have "0 \<le> n div 10" using Suc(2) by simp
    ultimately have "length (digits (n div 10)) \<le> Suc m" by (rule Suc.IH [rotated])
    then show ?thesis using False by (simp add: digits_large)
  qed
qed

lemma strip_zeros_value:
  "strip_zeros fuel (s, e) = (s', e') \<Longrightarrow> 0 < s \<Longrightarrow> 0 \<le> e \<Longrightarrow>
   0 < s' \<and> 0 \<le> e' \<and> s' * 10 ^ nat e' = s * 10 ^ nat e"
proof (induction fuel arbitrary: s e)
  case 0
  then show ?case by simp
next
  case (Suc fuel)
  show ?case
  proof (cases "s mod 10 = 0")
    case True
    then have st: "strip_zeros fuel (s div 10, e + 1) = (s', e')"
      using Suc(2,3) by simp
    have s: "s = s div 10 * 10" using True by (simp add: mod_eq_0_iff_dvd)
    then have "0 < s div 10" using Suc(3) by linarith
    moreover have "0 \<le> e + 1" using Suc(4) by simp
    ultimately have "0 < s' \<and> 0 \<le> e' \<and> s' * 10 ^ nat e' = s div 10 * 10 ^ nat (e + 1)"
      using Suc.IH [OF st] by simp
    moreover have "s div 10 * 10 ^ nat (e + 1) = s * 10 ^ nat e"
      using Suc(4) by (subst (2) s) (simp add: nat_add_distrib)
    ultimately show ?thesis by simp
  next
    case False
    then show ?thesis using Suc(2,3,4) by simp
  qed
qed

lemma toString_pos_of_int:
  assumes "0 < j" "j < 10 ^ 15"
  shows "toString_pos (of_int j) = digits j"
proof -
  define D where "D = count_digits 10 j"
  have D1: "1 \<le> D" unfolding D_def using assms(1) by (rule count_digits_pos) simp
  have b: "(10::int) ^ nat (D - 1) \<le> j" "j < 10 ^ nat D"
    unfolding D_def using count_digits_bounds [OF assms(1), of 10] by simp_all
  have "(10::int) ^ nat (D - 1) < 10 ^ 15" using b(1) assms(2) by linarith
  from power_less_imp_less_exp [OF _ this] have D15: "nat (D - 1) < 15" by simp
  have n0: "ilog 10 (rat_of_int j) + 1 = D"
    using assms(1) by (simp add: ilog_def D_def)
  have j2: "2 * j < 2 ^ 53" using assms(2) by simp
  have "D - int 1 = int (nat (D - 1))" using D1 by simp
  from shortest_of_int [OF assms(1) j2 this _ b(1), of 17] D15
  obtain s e where se: "shortest (of_int j) D 1 17 = (s, int e)" "0 < s" "s * 10 ^ e = j"
    by auto
  obtain s' e' where st: "strip_zeros 20 (s, int e) = (s', e')" by (cases "strip_zeros 20 (s, int e)")
  from strip_zeros_value [OF st se(2)] se(3)
  have v: "0 < s'" "0 \<le> e'" "s' * 10 ^ nat e' = j" by simp_all
  have dj: "digits j = digits s' @ replicate (nat e') CHR ''0''"
    using digits_times_10 [OF v(1), of "nat e'"] v(3) by simp
  have "length (digits j) \<le> Suc 14"
    using assms by (intro length_digits) simp_all
  then have len: "int (length (digits s')) + e' \<le> 21"
    using v(2) by (simp add: dj)
  have "toString_pos (of_int j) = layout (digits s') (int (length (digits s')) + e')"
    by (simp only: toString_pos_def n0 Let_def se(1) st prod.case)
  also have "\<dots> = digits s' @ replicate (nat e') CHR ''0''"
    using len v(2) by (simp add: layout_def Let_def)
  finally show ?thesis by (simp add: dj)
qed

lemma Number_toString_of_int:
  assumes "- (10 ^ 15) < i" "i < 10 ^ 15"
  shows "Number_toString (of_int i) = integer_string i"
proof -
  consider "i = 0" | "0 < i" | "i < 0" by linarith
  then show ?thesis
  proof cases
    case 1
    then show ?thesis by (simp add: Number_toString_def integer_string_def digits_0)
  next
    case 2
    then show ?thesis
      using toString_pos_of_int [OF 2 assms(2)]
      by (simp add: Number_toString_def integer_string_def)
  next
    case 3
    then have "0 < - i" "- i < 10 ^ 15" using assms(1) by simp_all
    from toString_pos_of_int [OF this] 3 show ?thesis
      by (simp add: Number_toString_def integer_string_def)
  qed
qed

text \<open>
  Claim C1, as stated, maps every numeric input below 1000 to an integer string. Such
  an input is printed as it is, by \<open>toString\<close>: a tick at 0.5 is labelled \<open>0.5\<close>.
\<close>

theorem tick_format_counterexample:
  "customFormatS (1 / 2) = ''0.5'' \<and> customFormatS (1 / 2) \<noteq> format_spec (1 / 2)"
  by code_simp

text \<open>
  Claim C1, amended: the tick format maps a finite input \<open>v\<close> from \<open>10^9\<close> on (and
  below \<open>10^29\<close>, where \<open>toFixed\<close> still prints digits) to the binary64 quotient
  \<open>v / 10^9\<close> rounded to one decimal, the half upwards, with a trailing \<open>.0\<close> stripped
  and the suffix \<open>B\<close>; else from \<open>10^6\<close> on likewise with \<open>M\<close>; else from \<open>10^3\<close> on
  likewise with \<open>K\<close>; else to the string \<open>toString\<close> gives \<open>v\<close> itself, which is the
  integer string when \<open>v\<close> is an integer (above \<open>-10^15\<close>). So the format is the
  one of the specification on every integer from \<open>-10^15\<close> to \<open>10^29\<close>. In particular
  999 gives \<open>999\<close>, 1000 gives \<open>1K\<close>, 1500 gives \<open>1.5K\<close>, 1000000 gives \<open>1M\<close> and
  2000000000 gives \<open>2B\<close>; and the format functions of the three charts are the same
  function.
\<close>

theorem tick_format:
  "(10 ^ 3 \<le> v \<and> v < 10 ^ 29 \<longrightarrow> customFormatS v = format_spec v)
   \<and> (v < 10 ^ 3 \<longrightarrow> customFormatS v = Number_toString v)
   \<and> (- (10 ^ 15) < i \<and> i < 10 ^ 29 \<longrightarrow> customFormatS (of_int i) = format_spec (of_int i))
   \<and> customFormatS 999 = ''999''
   \<and> customFormatS 1000 = ''1K''
   \<and> customFormatS 1500 = ''1.5K''
   \<and> customFormatS 1000000 = ''1M''
   \<and> customFormatS 2000000000 = ''2B''
   \<and> customFormatB = customFormatS
   \<and> customFormatP = customFormatS"
proof -
  have 1: "customFormatS v = format_spec v" if v: "10 ^ 3 \<le> v" "v < 10 ^ 29" for v
  proof -
    consider "10 ^ 9 \<le> v" | "10 ^ 6 \<le> v" "v < 10 ^ 9" | "v < 10 ^ 6" by linarith
    then show ?thesis
    proof cases
      case 1
      then show ?thesis
        using customFormat_branch [of "10 ^ 9" v] v
        by (simp add: customFormatS_def format_spec_def)
    next
      case 2
      then show ?thesis
        using customFormat_branch [of "10 ^ 6" v] v
        by (simp add: customFormatS_def format_spec_def)
    next
      case 3
      then show ?thesis
        using customFormat_branch [of "10 ^ 3" v] v
        by (simp add: customFormatS_def format_spec_def)
    qed
  qed
  have 2: "v < 10 ^ 3 \<longrightarrow> customFormatS v = Number_toString v"
    by (simp add: customFormatS_def)
  have 3: "customFormatS (of_int i) = format_spec (of_int i)" if i: "- (10 ^ 15) < i" "i < 10 ^ 29"
  proof (cases "1000 \<le> i")
    case True
    then show ?thesis using 1 [of "of_int i"] i(2) by simp
  next
    case False
    then have "i < 10 ^ 15" by simp
    from Number_toString_of_int [OF i(1) this] False show ?thesis
      by (simp add: customFormatS_def format_spec_def)
  qed
  have 4: "customFormatS 999 = ''999''" "customFormatS 1000 = ''1K''" "customFormatS 1500 = ''1.5K''"
    "customFormatS 1000000 = ''1M''" "customFormatS 2000000000 = ''2B''"
    by code_simp+
  have 5: "customFormatB = customFormatS" "customFormatP = customFormatS"
    by (rule ext, simp add: customFormatS_def customFormatB_def customFormatP_def)+
  show ?thesis using 1 [of v] 2 3 4 5 by blast
qed

theorem tick_format_witness:
  "customFormatS 1150 = format_spec 1150 \<and> format_spec 1150 = ''1.1K''
   \<and> customFormatS (1 / 2) = Number_toString (1 / 2) \<and> Number_toString (1 / 2) = ''0.5''
   \<and> customFormatS (of_int (- 5)) = format_spec (of_int (- 5)) \<and> format_spec (of_int (- 5)) = ''-5''"
proof -
  have "format_spec 1150 = ''1.1K''" "Number_toString (1 / 2) = ''0.5''"
    "format_spec (of_int (- 5)) = ''-5''"
    by code_simp+
  then show ?thesis
    using tick_format [of 1150 "- 5"] tick_format [of "1 / 2" "- 5"] by simp
qed

end
